theory Spec2Isabelle
  imports Complex_Main
begin

section \<open>Geo math (geo.ts)\<close>

text \<open>
  JavaScript numbers are modelled as mathematical reals (coordinates, accuracies,
  distances) and as integers (clock readings of \<^verbatim>\<open>Date.now()\<close>, in milliseconds).
  A \<^verbatim>\<open>Coordinate\<close> is the pair \<^verbatim>\<open>[lng, lat]\<close>: \<open>coord[0]\<close> is \<open>fst\<close>,
  \<open>coord[1]\<close> is \<open>snd\<close>.

  The definitions of this section give the value of the formulas of geo.ts in exact
  arithmetic. The program evaluates them on IEEE doubles, and the two differ in more
  than the last digits: for antipodal and nearly antipodal coordinates the double \<open>a\<close> of
  \<^verbatim>\<open>haversineDistance\<close> can round to a value above 1 (at \<^verbatim>\<open>[-179, -82]\<close> and \<^verbatim>\<open>[1, 82]\<close> it is
  \<open>1.0000000000000002\<close>), \<^verbatim>\<open>Math.sqrt(1 - a)\<close> is then NaN, and so are the distance and
  every total that contains it; geo.ts does not clamp \<open>a\<close> to 1. The real-valued model
  has no NaN; at these two antipodes its \<open>a\<close> is 1 and its distance \<open>6371000 * pi\<close>.
  Whether a distance is a number, its sign, and how the distances of two different pairs of coordinates
  compare are therefore not read off this model: no theorem below states them for all
  coordinates. What is taken from the model is the structure of the computation (which
  legs are added and in which order, which route a distance is computed from, which
  threshold a sample is compared with) and its values at \<open>(0, 0)\<close>, \<open>(0, 0)\<close> and at
  \<open>(0, 0)\<close>, \<open>(180, 0)\<close>, where the doubles give 0 and \<open>20015086.796\<close>: numbers, on the
  same side of the 3 m threshold as the exact values 0 and \<open>6371000 * pi\<close>.
\<close>

type_synonym Coordinate = "real \<times> real"

definition toRadians :: "real \<Rightarrow> real" where
  "toRadians degrees = degrees * (pi / 180)"

text \<open>
  \<^verbatim>\<open>Math.atan2(y, x)\<close> on finite reals: the angle of the point \<open>(x, y)\<close>, with
  \<open>atan2(0, 0) = 0\<close>.
\<close>

definition atan2 :: "real \<Rightarrow> real \<Rightarrow> real" where
  "atan2 y x =
     (if 0 < x then arctan (y / x)
      else if x < 0 then (if 0 \<le> y then arctan (y / x) + pi else arctan (y / x) - pi)
      else if 0 < y then pi / 2
      else if y < 0 then - (pi / 2)
      else 0)"

text \<open>
  \<^verbatim>\<open>Math.sqrt\<close> is the real square root. In exact arithmetic both of its arguments
  here lie in \<open>[0, 1]\<close>; on doubles \<open>1 - a\<close> can be negative, see above.
\<close>

definition haversineDistance :: "Coordinate \<Rightarrow> Coordinate \<Rightarrow> real" where
  "haversineDistance coord1 coord2 =
     (let R = 6371000;
          lat1 = toRadians (snd coord1);
          lat2 = toRadians (snd coord2);
          deltaLat = toRadians (snd coord2 - snd coord1);
          deltaLng = toRadians (fst coord2 - fst coord1);
          a = sin (deltaLat / 2) * sin (deltaLat / 2) +
              cos lat1 * cos lat2 * sin (deltaLng / 2) * sin (deltaLng / 2);
          c = 2 * atan2 (sqrt a) (sqrt (1 - a))
      in R * c)"

text \<open>The quantity \<open>a\<close> of \<^verbatim>\<open>haversineDistance\<close> on its own, for the proofs.\<close>

definition haversine_a :: "Coordinate \<Rightarrow> Coordinate \<Rightarrow> real" where
  "haversine_a coord1 coord2 =
     sin (toRadians (snd coord2 - snd coord1) / 2) * sin (toRadians (snd coord2 - snd coord1) / 2) +
     cos (toRadians (snd coord1)) * cos (toRadians (snd coord2)) *
       sin (toRadians (fst coord2 - fst coord1) / 2) * sin (toRadians (fst coord2 - fst coord1) / 2)"

text \<open>
  The loop of \<^verbatim>\<open>calculateTotalDistance\<close>:
  \<^verbatim>\<open>for (let i = 1; i < coordinates.length; i++) totalDistance += haversineDistance(coordinates[i - 1], coordinates[i])\<close>.
  Both indices are in range whenever the body runs (\<open>1 \<le> i < length\<close>).
\<close>

function totalDistance_loop :: "Coordinate list \<Rightarrow> nat \<Rightarrow> real \<Rightarrow> real" where
  "totalDistance_loop coordinates i totalDistance =
     (if i < length coordinates
      then totalDistance_loop coordinates (Suc i)
             (totalDistance + haversineDistance (coordinates ! (i - 1)) (coordinates ! i))
      else totalDistance)"
  by pat_completeness auto
termination
  by (relation "measure (\<lambda>(coordinates, i, totalDistance). length coordinates - i)") auto

declare totalDistance_loop.simps [simp del]

definition calculateTotalDistance :: "Coordinate list \<Rightarrow> real" where
  "calculateTotalDistance coordinates =
     (if length coordinates < 2 then 0 else totalDistance_loop coordinates 1 0)"

section \<open>The route accumulator (map.ts, map.js) and the collaborators\<close>

datatype RunState = Stopped | Running | Paused

text \<open>The exceptions that leave a function of the sources.\<close>

datatype JsError = TypeError | DOMException | OtherException

text \<open>
  The \<^verbatim>\<open>Run\<close> of storage.ts. The ISO strings \<open>startTime\<close> and \<open>endTime\<close> are kept
  as the clock readings they are printed from. The TypeScript variant stores an \<open>id\<close>
  that is a string; the JavaScript variant copies \<open>currentRunId\<close>, null included.
\<close>

record Run =
  run_id :: "string option"
  run_startTime :: int
  run_endTime :: int
  run_duration :: int
  run_distance :: real
  run_coordinates :: "Coordinate list"

text \<open>
  The module-level variables of run-tracker.ts (\<open>state\<close> to \<open>lastPosition\<close>), together
  with what the functions reach of their collaborators:
  \<^item> \<open>routeCoordinates\<close>: \<^verbatim>\<open>routeData.features[0].geometry.coordinates\<close> of map.ts;
  \<^item> \<open>mapPresent\<close>: whether \<^verbatim>\<open>initMap\<close> has resolved, so that \<^verbatim>\<open>map\<close> and \<^verbatim>\<open>routeSource\<close>
    are non-null (the interval between the creation of the map and its load event is
    not modelled);
  \<^item> \<open>activeWatches\<close>, \<open>nextWatchId\<close>: the subscriptions of \<^verbatim>\<open>navigator.geolocation\<close>
    that \<^verbatim>\<open>watchPosition\<close> has created and \<^verbatim>\<open>clearWatch\<close> has not yet cancelled;
  \<^item> \<open>savedRuns\<close>: the records handed to \<^verbatim>\<open>saveRun\<close>, newest first;
  \<^item> \<open>storedRuns\<close>: the history under \<^verbatim>\<open>STORAGE_KEY\<close> in \<^verbatim>\<open>localStorage\<close>, as
    \<^verbatim>\<open>getRuns\<close> reads it;
  \<^item> \<open>stateChanges\<close>, \<open>distanceUpdates\<close>: the arguments of the calls
    \<^verbatim>\<open>onStateChange?.(state)\<close> and \<^verbatim>\<open>onDistanceUpdate?.(distance)\<close>, in order (they reach
    the observer when one is registered);
  \<^item> \<open>alerts\<close>: the messages passed to \<^verbatim>\<open>alert\<close>.
  Rendering (markers, \<^verbatim>\<open>setData\<close>, the aria label, \<^verbatim>\<open>showHistoryRoute\<close>), the console
  and \<^verbatim>\<open>savePosition\<close>, which catches its own storage errors, are not modelled: once
  the map exists, the calls into the map library are taken to return, as they do for
  the coordinates that a position source delivers.
\<close>

record Tracker =
  state :: RunState
  watchId :: "nat option"
  startTime :: "int option"
  pausedTime :: int
  pauseStart :: "int option"
  currentRunId :: "string option"
  lastPosition :: "(real \<times> real) option"
  routeCoordinates :: "Coordinate list"
  mapPresent :: bool
  activeWatches :: "nat list"
  nextWatchId :: nat
  savedRuns :: "Run list"
  storedRuns :: "Run list"
  stateChanges :: "RunState list"
  distanceUpdates :: "real list"
  alerts :: "string list"

definition initial :: Tracker where
  "initial =
     \<lparr>state = Stopped, watchId = None, startTime = None, pausedTime = 0, pauseStart = None,
      currentRunId = None, lastPosition = None, routeCoordinates = [], mapPresent = False,
      activeWatches = [], nextWatchId = 1, savedRuns = [], storedRuns = [], stateChanges = [],
      distanceUpdates = [], alerts = []\<rparr>"

text \<open>JavaScript truthiness of a \<^verbatim>\<open>number | null\<close> and of a \<^verbatim>\<open>string | null\<close>.\<close>

definition truthyNum :: "int option \<Rightarrow> bool" where
  "truthyNum x = (case x of None \<Rightarrow> False | Some n \<Rightarrow> n \<noteq> 0)"

definition truthyStr :: "string option \<Rightarrow> bool" where
  "truthyStr x = (case x of None \<Rightarrow> False | Some str \<Rightarrow> str \<noteq> [])"

definition initMap :: "Tracker \<Rightarrow> Tracker" where
  "initMap s = s\<lparr>mapPresent := True\<rparr>"

definition addCoordinate :: "Tracker \<Rightarrow> real \<Rightarrow> real \<Rightarrow> Tracker" where
  "addCoordinate s lng lat =
     (if \<not> mapPresent s then s
      else s\<lparr>routeCoordinates := routeCoordinates s @ [(lng, lat)]\<rparr>)"

text \<open>
  \<^verbatim>\<open>addCoordinate\<close> of map.js (the second document of src/src/main.ts) has no guard for
  a missing map. With no map and an empty route, the first-coordinate branch
  dereferences the null \<^verbatim>\<open>map\<close> (\<^verbatim>\<open>.addTo(map)\<close>, \<^verbatim>\<open>map.jumpTo\<close>) and raises before the
  push. With no map and a non-empty route, \<^verbatim>\<open>currentMarker\<close> is non-null (only the
  first-coordinate branch makes the route non-empty, after setting it, and only
  \<^verbatim>\<open>clearRoute\<close> resets it, together with the route), the push happens, and
  \<^verbatim>\<open>routeSource.setData\<close> raises on the null \<^verbatim>\<open>routeSource\<close>. The result is the state
  the call leaves and the exception, if one was raised.
\<close>

definition addCoordinate_js :: "Tracker \<Rightarrow> real \<Rightarrow> real \<Rightarrow> Tracker \<times> JsError option" where
  "addCoordinate_js s lng lat =
     (if mapPresent s
      then (s\<lparr>routeCoordinates := routeCoordinates s @ [(lng, lat)]\<rparr>, None)
      else if routeCoordinates s = [] then (s, Some TypeError)
      else (s\<lparr>routeCoordinates := routeCoordinates s @ [(lng, lat)]\<rparr>, Some TypeError))"

text \<open>
  \<^verbatim>\<open>getRouteCoordinates\<close> and \<^verbatim>\<open>clearRoute\<close> are the same in map.ts and map.js, up to
  rendering.
\<close>

definition getRouteCoordinates :: "Tracker \<Rightarrow> Coordinate list" where
  "getRouteCoordinates s = routeCoordinates s"

definition clearRoute :: "Tracker \<Rightarrow> Tracker" where
  "clearRoute s = s\<lparr>routeCoordinates := []\<rparr>"

text \<open>
  \<^verbatim>\<open>navigator.geolocation.watchPosition\<close> returns a fresh handle and keeps the
  subscription until \<^verbatim>\<open>clearWatch\<close> is called with that handle.
\<close>

definition watchPosition :: "Tracker \<Rightarrow> nat \<times> Tracker" where
  "watchPosition s =
     (nextWatchId s,
      s\<lparr>activeWatches := activeWatches s @ [nextWatchId s], nextWatchId := Suc (nextWatchId s)\<rparr>)"

definition clearWatch :: "Tracker \<Rightarrow> nat \<Rightarrow> Tracker" where
  "clearWatch s w = s\<lparr>activeWatches := removeAll w (activeWatches s)\<rparr>"

text \<open>
  storage.ts. What \<^verbatim>\<open>localStorage.setItem\<close> does is the environment's: it writes, raises
  the \<^verbatim>\<open>DOMException\<close> named \<^verbatim>\<open>QuotaExceededError\<close>, or raises something else
  (\<open>OtherException\<close>).
  \<^verbatim>\<open>getRuns\<close> returns the stored history (a stored text that is not the JSON of an
  array, which the application never writes, is not modelled). \<^verbatim>\<open>saveRun\<close> puts the
  run in front, writes inside \<^verbatim>\<open>try\<close>, and in the \<^verbatim>\<open>catch\<close> retries a quota error with
  the 50 most recent runs; the retry is outside any \<^verbatim>\<open>try\<close>, so what it raises leaves
  \<^verbatim>\<open>saveRun\<close>. \<open>first\<close> and \<open>retry\<close> are the outcomes of the two writes.
\<close>

datatype SetItemResult = Written | QuotaExceededError | OtherError

definition getRuns :: "Tracker \<Rightarrow> Run list" where
  "getRuns s = storedRuns s"

definition saveRun ::
  "Tracker \<Rightarrow> Run \<Rightarrow> SetItemResult \<Rightarrow> SetItemResult \<Rightarrow> Tracker \<times> JsError option" where
  "saveRun s run first retry =
     (let runs = run # getRuns s;
          s0 = s\<lparr>savedRuns := run # savedRuns s\<rparr>
      in case first of
           Written \<Rightarrow> (s0\<lparr>storedRuns := runs\<rparr>, None)
         | OtherError \<Rightarrow> (s0, None)
         | QuotaExceededError \<Rightarrow>
             (case retry of
                Written \<Rightarrow> (s0\<lparr>storedRuns := take 50 runs\<rparr>, None)
              | QuotaExceededError \<Rightarrow> (s0, Some DOMException)
              | OtherError \<Rightarrow> (s0, Some OtherException)))"

text \<open>
  \<^verbatim>\<open>generateId\<close> of storage.ts builds \<^verbatim>\<open>`run_${Date.now()}_${random}`\<close>; the printed
  clock reading and the random suffix are taken from the environment.
\<close>

definition generateId :: "string \<Rightarrow> string \<Rightarrow> string" where
  "generateId stamp suffix = ''run_'' @ stamp @ ''_'' @ suffix"

section \<open>The run tracker (run-tracker.ts)\<close>

definition MAX_ACCURACY :: real where
  "MAX_ACCURACY = 30"

definition MIN_MOVEMENT :: real where
  "MIN_MOVEMENT = 3"

definition getState :: "Tracker \<Rightarrow> RunState" where
  "getState s = state s"

text \<open>\<open>now\<close> is what \<^verbatim>\<open>Date.now()\<close> returns when the running branch reads it.\<close>

definition getElapsedTime :: "Tracker \<Rightarrow> int \<Rightarrow> int" where
  "getElapsedTime s now =
     (case startTime s of
        None \<Rightarrow> 0
      | Some st \<Rightarrow>
          if st = 0 then 0
          else if state s = Paused \<and> truthyNum (pauseStart s)
            then (case pauseStart s of Some ps \<Rightarrow> ps - st - pausedTime s | None \<Rightarrow> 0)
          else if state s = Running then now - st - pausedTime s
          else 0)"

definition getCurrentDistance :: "Tracker \<Rightarrow> real" where
  "getCurrentDistance s = calculateTotalDistance (getRouteCoordinates s)"

definition getLastPosition :: "Tracker \<Rightarrow> (real \<times> real) option" where
  "getLastPosition s = lastPosition s"

text \<open>
  \<open>geo\<close>: whether \<^verbatim>\<open>navigator.geolocation\<close> exists; \<open>stamp\<close>, \<open>suffix\<close>: the
  environment's part of \<^verbatim>\<open>generateId()\<close>; \<open>now\<close>: the reading of \<^verbatim>\<open>Date.now()\<close> in
  the branch taken.
\<close>

definition startTracking :: "Tracker \<Rightarrow> bool \<Rightarrow> string \<Rightarrow> string \<Rightarrow> int \<Rightarrow> Tracker" where
  "startTracking s geo stamp suffix now =
     (if \<not> geo
      then s\<lparr>alerts := alerts s @ [''Geolocation is not supported by your browser'']\<rparr>
      else
        let s1 =
              (if state s = Stopped
               then clearRoute
                      (s\<lparr>currentRunId := Some (generateId stamp suffix),
                         startTime := Some now, pausedTime := 0\<rparr>)
               else if state s = Paused \<and> truthyNum (pauseStart s)
               then (case pauseStart s of
                       Some ps \<Rightarrow> s\<lparr>pausedTime := pausedTime s + (now - ps), pauseStart := None\<rparr>
                     | None \<Rightarrow> s)
               else s);
            s2 = s1\<lparr>state := Running, stateChanges := stateChanges s1 @ [Running]\<rparr>;
            (w, s3) = watchPosition s2
        in s3\<lparr>watchId := Some w\<rparr>)"

text \<open>The block \<^verbatim>\<open>if (watchId !== null) { clearWatch(watchId); watchId = null; }\<close>.\<close>

definition stopWatching :: "Tracker \<Rightarrow> Tracker" where
  "stopWatching s =
     (case watchId s of
        None \<Rightarrow> s
      | Some w \<Rightarrow> (clearWatch s w)\<lparr>watchId := None\<rparr>)"

definition pauseTracking :: "Tracker \<Rightarrow> int \<Rightarrow> Tracker" where
  "pauseTracking s now =
     (if state s \<noteq> Running then s
      else
        let s1 = stopWatching s
        in s1\<lparr>pauseStart := Some now, state := Paused,
              stateChanges := stateChanges s1 @ [Paused]\<rparr>)"

text \<open>The assignments after the save, shared by both variants of \<^verbatim>\<open>finishRun\<close>.\<close>

definition resetState :: "Tracker \<Rightarrow> Tracker" where
  "resetState s =
     s\<lparr>state := Stopped, startTime := None, pausedTime := 0, pauseStart := None,
        currentRunId := None, lastPosition := None\<rparr>"

text \<open>
  \<^verbatim>\<open>finishRun\<close> of run-tracker.ts. \<open>now\<close> is the reading of \<^verbatim>\<open>Date.now()\<close> inside
  \<^verbatim>\<open>getElapsedTime()\<close>, \<open>endNow\<close> that of \<^verbatim>\<open>new Date()\<close> for \<open>endTime\<close>. An exception
  of \<^verbatim>\<open>saveRun\<close> leaves \<^verbatim>\<open>finishRun\<close> at once: the watch is cancelled, nothing is reset.
  The route is kept: \<^verbatim>\<open>clearRoute()\<close> is not called here.
\<close>

definition finishRun ::
  "Tracker \<Rightarrow> int \<Rightarrow> int \<Rightarrow> SetItemResult \<Rightarrow> SetItemResult \<Rightarrow> Tracker \<times> JsError option" where
  "finishRun s now endNow first retry =
     (if state s = Stopped then (s, None)
      else
        let s1 = stopWatching s;
            coordinates = getRouteCoordinates s1;
            distance = calculateTotalDistance coordinates;
            duration = getElapsedTime s1 now;
            saved =
              (if length coordinates > 0 \<and> duration > 0 \<and> truthyStr (currentRunId s1)
                  \<and> truthyNum (startTime s1)
               then (case (currentRunId s1, startTime s1) of
                       (Some rid, Some st) \<Rightarrow>
                         saveRun s1
                           \<lparr>run_id = Some rid, run_startTime = st, run_endTime = endNow,
                            run_duration = duration, run_distance = distance,
                            run_coordinates = coordinates\<rparr> first retry
                     | _ \<Rightarrow> (s1, None))
               else (s1, None))
        in case saved of
             (s2, Some e) \<Rightarrow> (s2, Some e)
           | (s2, None) \<Rightarrow>
               let s3 = resetState s2
               in (s3\<lparr>stateChanges := stateChanges s3 @ [Stopped]\<rparr>, None))"

definition handlePositionUpdate :: "Tracker \<Rightarrow> real \<Rightarrow> real \<Rightarrow> real \<Rightarrow> Tracker" where
  "handlePositionUpdate s longitude latitude accuracy =
     (if accuracy > MAX_ACCURACY then s
      else
        let coords = getRouteCoordinates s
        in if length coords > 0 \<and>
              haversineDistance (last coords) (longitude, latitude) < MIN_MOVEMENT
           then s
           else
             let s1 = s\<lparr>lastPosition := Some (longitude, latitude)\<rparr>;
                 s2 = addCoordinate s1 longitude latitude;
                 distance = calculateTotalDistance (getRouteCoordinates s2)
             in s2\<lparr>distanceUpdates := distanceUpdates s2 @ [distance]\<rparr>)"

datatype GeolocationPositionError = PERMISSION_DENIED | POSITION_UNAVAILABLE | TIMEOUT

definition handlePositionError :: "Tracker \<Rightarrow> GeolocationPositionError \<Rightarrow> Tracker" where
  "handlePositionError s code =
     (case code of
        PERMISSION_DENIED \<Rightarrow>
          s\<lparr>alerts := alerts s @
            [''Location permission denied. Please enable location access to track your run.'']\<rparr>
      | POSITION_UNAVAILABLE \<Rightarrow> s
      | TIMEOUT \<Rightarrow> s)"

section \<open>The JavaScript variant (run-tracker.js)\<close>

text \<open>
  run-tracker.js is run-tracker.ts without the type annotations, except for
  \<^verbatim>\<open>finishRun\<close>: its save condition is \<^verbatim>\<open>coordinates.length > 0 && duration > 0\<close>
  alone, it does not call \<^verbatim>\<open>showHistoryRoute\<close>, and it calls \<^verbatim>\<open>clearRoute()\<close> after
  resetting the variables. \<^verbatim>\<open>new Date(null)\<close> is the epoch. The \<^verbatim>\<open>saveRun\<close> of
  storage.js retries on any error named \<^verbatim>\<open>QuotaExceededError\<close>, which for what
  \<^verbatim>\<open>setItem\<close> raises is the same test. It imports the route
  accumulator of map.js, so its \<^verbatim>\<open>handlePositionUpdate\<close> stops at an exception of
  \<^verbatim>\<open>addCoordinate\<close>, after the assignment to \<open>lastPosition\<close> and before the
  notification.
\<close>

text \<open>
  geo.js, from which run-tracker.js imports its geo math, is not among the sources.
\<close>

definition haversineDistance_js :: "Coordinate \<Rightarrow> Coordinate \<Rightarrow> real" where
  \<comment> \<open>Modelled from the spec: geo.js is missing; its \<^verbatim>\<open>haversineDistance\<close> is the spec's
      \<open>distance\<close>, the great-circle distance that geo.ts computes.\<close>
  "haversineDistance_js coord1 coord2 = haversineDistance coord1 coord2"

definition calculateTotalDistance_js :: "Coordinate list \<Rightarrow> real" where
  \<comment> \<open>Modelled from the spec: geo.js is missing; its \<^verbatim>\<open>calculateTotalDistance\<close> is the
      spec's \<open>routeDistance\<close>, the sum of the distances of consecutive pairs, as in geo.ts.\<close>
  "calculateTotalDistance_js coordinates = calculateTotalDistance coordinates"

definition getCurrentDistance_js :: "Tracker \<Rightarrow> real" where
  "getCurrentDistance_js s = calculateTotalDistance_js (getRouteCoordinates s)"

definition finishRun_js ::
  "Tracker \<Rightarrow> int \<Rightarrow> int \<Rightarrow> SetItemResult \<Rightarrow> SetItemResult \<Rightarrow> Tracker \<times> JsError option" where
  "finishRun_js s now endNow first retry =
     (if state s = Stopped then (s, None)
      else
        let s1 = stopWatching s;
            coordinates = getRouteCoordinates s1;
            distance = calculateTotalDistance_js coordinates;
            duration = getElapsedTime s1 now;
            saved =
              (if length coordinates > 0 \<and> duration > 0
               then saveRun s1
                      \<lparr>run_id = currentRunId s1,
                       run_startTime = (case startTime s1 of None \<Rightarrow> 0 | Some st \<Rightarrow> st),
                       run_endTime = endNow, run_duration = duration, run_distance = distance,
                       run_coordinates = coordinates\<rparr> first retry
               else (s1, None))
        in case saved of
             (s2, Some e) \<Rightarrow> (s2, Some e)
           | (s2, None) \<Rightarrow>
               let s3 = clearRoute (resetState s2)
               in (s3\<lparr>stateChanges := stateChanges s3 @ [Stopped]\<rparr>, None))"

definition handlePositionUpdate_js ::
  "Tracker \<Rightarrow> real \<Rightarrow> real \<Rightarrow> real \<Rightarrow> Tracker \<times> JsError option" where
  "handlePositionUpdate_js s longitude latitude accuracy =
     (if accuracy > MAX_ACCURACY then (s, None)
      else
        let coords = getRouteCoordinates s
        in if length coords > 0 \<and>
              haversineDistance_js (last coords) (longitude, latitude) < MIN_MOVEMENT
           then (s, None)
           else
             let s1 = s\<lparr>lastPosition := Some (longitude, latitude)\<rparr>
             in case addCoordinate_js s1 longitude latitude of
                  (s2, Some e) \<Rightarrow> (s2, Some e)
                | (s2, None) \<Rightarrow>
                    let distance = calculateTotalDistance_js (getRouteCoordinates s2)
                    in (s2\<lparr>distanceUpdates := distanceUpdates s2 @ [distance]\<rparr>, None))"

section \<open>Sequences of operations\<close>

text \<open>
  One event is one call from the host: \<^verbatim>\<open>initMap\<close> (with its load event), an exported
  function of the tracker, or a callback of the position source. The position source
  calls back only while some subscription is active. An exception that leaves a
  call goes to the host, and the state stays as the call left it.
\<close>

datatype event =
    InitMap
  | Start bool string string int
  | Pause int
  | Finish int int SetItemResult SetItemResult
  | Fix real real real
  | FixError GeolocationPositionError

definition deliverFix :: "Tracker \<Rightarrow> real \<Rightarrow> real \<Rightarrow> real \<Rightarrow> Tracker" where
  "deliverFix s longitude latitude accuracy =
     (if activeWatches s = [] then s else handlePositionUpdate s longitude latitude accuracy)"

definition deliverFix_js :: "Tracker \<Rightarrow> real \<Rightarrow> real \<Rightarrow> real \<Rightarrow> Tracker" where
  "deliverFix_js s longitude latitude accuracy =
     (if activeWatches s = [] then s
      else fst (handlePositionUpdate_js s longitude latitude accuracy))"

definition deliverError :: "Tracker \<Rightarrow> GeolocationPositionError \<Rightarrow> Tracker" where
  "deliverError s code = (if activeWatches s = [] then s else handlePositionError s code)"

fun step_ts :: "Tracker \<Rightarrow> event \<Rightarrow> Tracker" where
  "step_ts s InitMap = initMap s"
| "step_ts s (Start geo stamp suffix now) = startTracking s geo stamp suffix now"
| "step_ts s (Pause now) = pauseTracking s now"
| "step_ts s (Finish now endNow first retry) = fst (finishRun s now endNow first retry)"
| "step_ts s (Fix longitude latitude accuracy) = deliverFix s longitude latitude accuracy"
| "step_ts s (FixError code) = deliverError s code"

fun step_js :: "Tracker \<Rightarrow> event \<Rightarrow> Tracker" where
  "step_js s InitMap = initMap s"
| "step_js s (Start geo stamp suffix now) = startTracking s geo stamp suffix now"
| "step_js s (Pause now) = pauseTracking s now"
| "step_js s (Finish now endNow first retry) = fst (finishRun_js s now endNow first retry)"
| "step_js s (Fix longitude latitude accuracy) = deliverFix_js s longitude latitude accuracy"
| "step_js s (FixError code) = deliverError s code"

definition run_ts :: "event list \<Rightarrow> Tracker" where
  "run_ts evs = foldl step_ts initial evs"

definition run_js :: "event list \<Rightarrow> Tracker" where
  "run_js evs = foldl step_js initial evs"

section \<open>The handlers of the user interface (main.ts)\<close>

text \<open>
  \<^verbatim>\<open>handlePlayPause\<close> starts from stopped or paused and pauses from running;
  \<^verbatim>\<open>handleFinish\<close> finishes when the user confirms the dialog. \<^verbatim>\<open>init\<close> attaches both
  to their buttons after \<^verbatim>\<open>await initMap()\<close>, so a click before the map has loaded
  reaches no handler.
\<close>

definition handlePlayPause :: "Tracker \<Rightarrow> bool \<Rightarrow> string \<Rightarrow> string \<Rightarrow> int \<Rightarrow> Tracker" where
  "handlePlayPause s geo stamp suffix now =
     (let st = getState s
      in if st = Stopped \<or> st = Paused then startTracking s geo stamp suffix now
         else if st = Running then pauseTracking s now
         else s)"

definition handleFinish ::
  "Tracker \<Rightarrow> bool \<Rightarrow> int \<Rightarrow> int \<Rightarrow> SetItemResult \<Rightarrow> SetItemResult \<Rightarrow> Tracker \<times> JsError option" where
  "handleFinish s confirmed now endNow first retry =
     (if confirmed then finishRun s now endNow first retry else (s, None))"

datatype ui_event =
    Load
  | PlayPauseClick bool string string int
  | FinishClick bool int int SetItemResult SetItemResult
  | Position real real real
  | PositionError GeolocationPositionError

fun ui_step :: "Tracker \<Rightarrow> ui_event \<Rightarrow> Tracker" where
  "ui_step s Load = initMap s"
| "ui_step s (PlayPauseClick geo stamp suffix now) =
     (if mapPresent s then handlePlayPause s geo stamp suffix now else s)"
| "ui_step s (FinishClick confirmed now endNow first retry) =
     (if mapPresent s then fst (handleFinish s confirmed now endNow first retry) else s)"
| "ui_step s (Position longitude latitude accuracy) = deliverFix s longitude latitude accuracy"
| "ui_step s (PositionError code) = deliverError s code"

definition run_ui :: "ui_event list \<Rightarrow> Tracker" where
  "run_ui evs = foldl ui_step initial evs"

text \<open>
  main.js has the same two handlers; its \<^verbatim>\<open>handleFinish\<close> calls the \<^verbatim>\<open>finishRun\<close> of
  run-tracker.js.
\<close>

definition handleFinish_js ::
  "Tracker \<Rightarrow> bool \<Rightarrow> int \<Rightarrow> int \<Rightarrow> SetItemResult \<Rightarrow> SetItemResult \<Rightarrow> Tracker \<times> JsError option" where
  "handleFinish_js s confirmed now endNow first retry =
     (if confirmed then finishRun_js s now endNow first retry else (s, None))"

fun ui_step_js :: "Tracker \<Rightarrow> ui_event \<Rightarrow> Tracker" where
  "ui_step_js s Load = initMap s"
| "ui_step_js s (PlayPauseClick geo stamp suffix now) =
     (if mapPresent s then handlePlayPause s geo stamp suffix now else s)"
| "ui_step_js s (FinishClick confirmed now endNow first retry) =
     (if mapPresent s then fst (handleFinish_js s confirmed now endNow first retry) else s)"
| "ui_step_js s (Position longitude latitude accuracy) = deliverFix_js s longitude latitude accuracy"
| "ui_step_js s (PositionError code) = deliverError s code"

definition run_ui_js :: "ui_event list \<Rightarrow> Tracker" where
  "run_ui_js evs = foldl ui_step_js initial evs"

section \<open>Invariants used in the proofs\<close>

text \<open>
  Shorthands for the statements of the lemmas below: the relation between the timing
  variables and the lifecycle state, the relation between the tracker's handle and the
  subscriptions of the position source, what holds of the route and of a run while the
  map is missing, the presence of a run id, and the agreement of a state of the
  TypeScript variant with one of the JavaScript variant.
\<close>

abbreviation fieldsInv :: "Tracker \<Rightarrow> bool" where
  "fieldsInv s \<equiv>
     (state s = Paused \<longrightarrow> (\<exists>p. pauseStart s = Some p \<and> p \<noteq> 0)) \<and>
     (state s \<noteq> Paused \<longrightarrow> pauseStart s = None) \<and>
     (state s = Stopped \<longrightarrow> startTime s = None \<and> currentRunId s = None) \<and>
     (state s \<noteq> Stopped \<longrightarrow> startTime s \<noteq> None \<and> truthyStr (currentRunId s))"

abbreviation startInv :: "Tracker \<Rightarrow> bool" where
  "startInv s \<equiv>
     (state s = Stopped \<longrightarrow> startTime s = None \<and> currentRunId s = None) \<and>
     (state s \<noteq> Stopped \<longrightarrow> startTime s \<noteq> None \<and> currentRunId s \<noteq> None)"

abbreviation watchInv :: "Tracker \<Rightarrow> bool" where
  "watchInv s \<equiv>
     (state s = Running \<longrightarrow>
        (watchId s = None \<and> activeWatches s = []) \<or>
        (\<exists>w. watchId s = Some w \<and> activeWatches s = [w])) \<and>
     (state s \<noteq> Running \<longrightarrow> watchId s = None \<and> activeWatches s = [])"

abbreviation routeInv :: "Tracker \<Rightarrow> bool" where
  "routeInv s \<equiv> \<not> mapPresent s \<longrightarrow> routeCoordinates s = []"

abbreviation loadedInv :: "Tracker \<Rightarrow> bool" where
  "loadedInv s \<equiv> state s \<noteq> Stopped \<longrightarrow> mapPresent s"

abbreviation lastInv :: "Tracker \<Rightarrow> bool" where
  "lastInv s \<equiv>
     (state s = Stopped \<longrightarrow> lastPosition s = None) \<and>
     (state s \<noteq> Stopped \<longrightarrow>
        lastPosition s =
          (if routeCoordinates s = [] then None else Some (last (routeCoordinates s))))"

abbreviation idInv :: "Tracker \<Rightarrow> bool" where
  "idInv s \<equiv> state s \<noteq> Stopped \<longrightarrow> (\<exists>rid. currentRunId s = Some rid \<and> rid \<noteq> [])"

abbreviation agree :: "Tracker \<Rightarrow> Tracker \<Rightarrow> bool" where
  "agree t j \<equiv>
     state t = state j \<and> watchId t = watchId j \<and> startTime t = startTime j \<and>
     pausedTime t = pausedTime j \<and> pauseStart t = pauseStart j \<and>
     currentRunId t = currentRunId j \<and> mapPresent t = mapPresent j \<and>
     activeWatches t = activeWatches j \<and> nextWatchId t = nextWatchId j \<and>
     savedRuns t = savedRuns j \<and> storedRuns t = storedRuns j \<and>
     stateChanges t = stateChanges j \<and> alerts t = alerts j \<and>
     (state t \<noteq> Stopped \<longrightarrow> routeCoordinates t = routeCoordinates j)"

abbreviation saveRaises :: "SetItemResult \<Rightarrow> SetItemResult \<Rightarrow> bool" where
  "saveRaises first retry \<equiv> first = QuotaExceededError \<and> retry \<noteq> Written"

abbreviation hasData :: "Tracker \<Rightarrow> int \<Rightarrow> bool" where
  "hasData s now \<equiv> getRouteCoordinates s \<noteq> [] \<and> 0 < getElapsedTime s now"

section \<open>Properties of the geo math\<close>

lemma haversineDistance_a:
  "haversineDistance c1 c2 =
     6371000 * (2 * atan2 (sqrt (haversine_a c1 c2)) (sqrt (1 - haversine_a c1 c2)))"
  by (simp add: haversineDistance_def haversine_a_def Let_def)

lemma haversine_a_same: "haversine_a c c = 0"
  by (simp add: haversine_a_def toRadians_def)

lemma haversineDistance_same: "haversineDistance c c = 0"
  by (simp add: haversineDistance_a haversine_a_same atan2_def)

lemma totalDistance_loop_sum:
  "totalDistance_loop cs i t =
     t + (\<Sum>k = i..<length cs. haversineDistance (cs ! (k - 1)) (cs ! k))"
proof (induction cs i t rule: totalDistance_loop.induct)
  case (1 cs i t)
  show ?case
  proof (cases "i < length cs")
    case True
    have "totalDistance_loop cs i t =
            totalDistance_loop cs (Suc i) (t + haversineDistance (cs ! (i - 1)) (cs ! i))"
      using True by (subst totalDistance_loop.simps) simp
    also have "\<dots> = (t + haversineDistance (cs ! (i - 1)) (cs ! i)) +
            (\<Sum>k = Suc i..<length cs. haversineDistance (cs ! (k - 1)) (cs ! k))"
      using True by (rule "1.IH")
    also have "\<dots> = t + (\<Sum>k = i..<length cs. haversineDistance (cs ! (k - 1)) (cs ! k))"
      using True by (simp add: sum.atLeast_Suc_lessThan)
    finally show ?thesis .
  next
    case False
    then show ?thesis by (subst totalDistance_loop.simps) simp
  qed
qed

lemma calculateTotalDistance_eq_sum:
  "calculateTotalDistance cs =
     (\<Sum>k = 1..<length cs. haversineDistance (cs ! (k - 1)) (cs ! k))"
proof (cases "length cs < 2")
  case True
  then have "{1..<length cs} = {}" by auto
  with True show ?thesis by (simp add: calculateTotalDistance_def)
next
  case False
  then show ?thesis by (simp add: calculateTotalDistance_def totalDistance_loop_sum)
qed

section \<open>Properties of the run tracker\<close>

lemmas tracker_defs = startTracking_def pauseTracking_def finishRun_def finishRun_js_def
  getRuns_def haversineDistance_js_def calculateTotalDistance_js_def
  handlePositionUpdate_def handlePositionUpdate_js_def handlePositionError_def
  stopWatching_def clearWatch_def watchPosition_def saveRun_def clearRoute_def
  addCoordinate_def addCoordinate_js_def getRouteCoordinates_def resetState_def initMap_def
  deliverFix_def deliverFix_js_def deliverError_def generateId_def truthyNum_def truthyStr_def
  getState_def

lemma haversineDistance_half_turn: "haversineDistance (0, 0) (180, 0) = 6371000 * pi"
  by (simp add: haversineDistance_a haversine_a_def toRadians_def atan2_def)

lemma run_ts_snoc: "run_ts (evs @ [e]) = step_ts (run_ts evs) e"
  by (simp add: run_ts_def)

lemma run_js_snoc: "run_js (evs @ [e]) = step_js (run_js evs) e"
  by (simp add: run_js_def)

lemma run_ui_snoc: "run_ui (evs @ [e]) = ui_step (run_ui evs) e"
  by (simp add: run_ui_def)

lemma run_ui_js_snoc: "run_ui_js (evs @ [e]) = ui_step_js (run_ui_js evs) e"
  by (simp add: run_ui_js_def)

subsection \<open>The timing variables follow the lifecycle state\<close>

lemma step_ts_fieldsInv: "fieldsInv s \<Longrightarrow> e \<noteq> Pause 0 \<Longrightarrow> fieldsInv (step_ts s e)"
  by (cases e; cases "state s")
     (auto simp: tracker_defs Let_def split: option.splits GeolocationPositionError.splits SetItemResult.splits)

lemma step_js_fieldsInv: "fieldsInv s \<Longrightarrow> e \<noteq> Pause 0 \<Longrightarrow> fieldsInv (step_js s e)"
  by (cases e; cases "state s")
     (auto simp: tracker_defs Let_def split: option.splits GeolocationPositionError.splits SetItemResult.splits)

lemma run_ts_fieldsInv: "Pause 0 \<notin> set evs \<Longrightarrow> fieldsInv (run_ts evs)"
proof (induction evs rule: rev_induct)
  case Nil
  show ?case by (simp add: run_ts_def initial_def)
next
  case (snoc e evs)
  then have "fieldsInv (run_ts evs)" "e \<noteq> Pause 0" by auto
  then show ?case unfolding run_ts_snoc by (rule step_ts_fieldsInv)
qed

lemma run_js_fieldsInv: "Pause 0 \<notin> set evs \<Longrightarrow> fieldsInv (run_js evs)"
proof (induction evs rule: rev_induct)
  case Nil
  show ?case by (simp add: run_js_def initial_def)
next
  case (snoc e evs)
  then have "fieldsInv (run_js evs)" "e \<noteq> Pause 0" by auto
  then show ?case unfolding run_js_snoc by (rule step_js_fieldsInv)
qed

lemma step_ts_startInv: "startInv s \<Longrightarrow> startInv (step_ts s e)"
  by (cases e; cases "state s")
     (auto simp: tracker_defs Let_def split: option.splits GeolocationPositionError.splits SetItemResult.splits)

lemma run_ts_startInv: "startInv (run_ts evs)"
proof (induction evs rule: rev_induct)
  case Nil
  show ?case by (simp add: run_ts_def initial_def)
next
  case (snoc e evs)
  then show ?case unfolding run_ts_snoc by (rule step_ts_startInv)
qed

subsection \<open>A run in progress has a run id\<close>

lemma step_ts_idInv: "idInv s \<Longrightarrow> idInv (step_ts s e)"
  by (cases e; cases "state s")
     (auto simp: tracker_defs Let_def split: option.splits GeolocationPositionError.splits SetItemResult.splits)

lemma run_ts_idInv: "idInv (run_ts evs)"
proof (induction evs rule: rev_induct)
  case Nil
  show ?case by (simp add: run_ts_def initial_def)
next
  case (snoc e evs)
  then show ?case unfolding run_ts_snoc by (rule step_ts_idInv)
qed

lemma ui_step_idInv: "idInv s \<Longrightarrow> idInv (ui_step s e)"
  by (cases e; cases "state s")
     (auto simp: tracker_defs handlePlayPause_def handleFinish_def Let_def
           split: option.splits GeolocationPositionError.splits SetItemResult.splits)

lemma run_ui_idInv: "idInv (run_ui evs)"
proof (induction evs rule: rev_induct)
  case Nil
  show ?case by (simp add: run_ui_def initial_def)
next
  case (snoc e evs)
  then show ?case unfolding run_ui_snoc by (rule ui_step_idInv)
qed

subsection \<open>Without a map the route stays empty\<close>

lemma step_ts_routeInv: "routeInv s \<Longrightarrow> routeInv (step_ts s e)"
  by (cases e)
     (auto simp: tracker_defs Let_def split: option.splits GeolocationPositionError.splits SetItemResult.splits)

lemma run_ts_routeInv: "routeInv (run_ts evs)"
proof (induction evs rule: rev_induct)
  case Nil
  show ?case by (simp add: run_ts_def initial_def)
next
  case (snoc e evs)
  then show ?case unfolding run_ts_snoc by (rule step_ts_routeInv)
qed

lemma step_js_routeInv: "routeInv s \<Longrightarrow> routeInv (step_js s e)"
  by (cases e)
     (auto simp: tracker_defs Let_def split: option.splits GeolocationPositionError.splits SetItemResult.splits)

lemma run_js_routeInv: "routeInv (run_js evs)"
proof (induction evs rule: rev_induct)
  case Nil
  show ?case by (simp add: run_js_def initial_def)
next
  case (snoc e evs)
  then show ?case unfolding run_js_snoc by (rule step_js_routeInv)
qed

subsection \<open>Subscriptions under the handlers of the user interface\<close>

lemma ui_step_loadedInv: "loadedInv s \<Longrightarrow> loadedInv (ui_step s e)"
  by (cases e; cases "state s")
     (auto simp: tracker_defs handlePlayPause_def handleFinish_def Let_def
           split: option.splits GeolocationPositionError.splits SetItemResult.splits)

lemma run_ui_loadedInv: "loadedInv (run_ui evs)"
proof (induction evs rule: rev_induct)
  case Nil
  show ?case by (simp add: run_ui_def initial_def)
next
  case (snoc e evs)
  then show ?case unfolding run_ui_snoc by (rule ui_step_loadedInv)
qed


lemma ui_step_watchInv: "watchInv s \<Longrightarrow> watchInv (ui_step s e)"
  by (cases e; cases "state s")
     (auto simp: tracker_defs handlePlayPause_def handleFinish_def Let_def
           split: option.splits GeolocationPositionError.splits SetItemResult.splits)

lemma run_ui_watchInv: "watchInv (run_ui evs)"
proof (induction evs rule: rev_induct)
  case Nil
  show ?case by (simp add: run_ui_def initial_def)
next
  case (snoc e evs)
  then show ?case unfolding run_ui_snoc by (rule ui_step_watchInv)
qed

lemma ui_step_lastInv:
  assumes "lastInv s" and "watchInv s" and "loadedInv s"
  shows "lastInv (ui_step s e)"
proof (cases e)
  case Load
  then show ?thesis using assms by (simp add: initMap_def)
next
  case (PlayPauseClick geo stamp suffix now)
  then show ?thesis using assms
    by (cases "state s")
       (auto simp: tracker_defs handlePlayPause_def Let_def split: option.splits)
next
  case (FinishClick confirmed now endNow first retry)
  then show ?thesis using assms
    by (cases "state s = Stopped")
       (auto simp: handleFinish_def finishRun_def Let_def resetState_def saveRun_def
             stopWatching_def clearWatch_def split: option.splits SetItemResult.splits)
next
  case (Position longitude latitude accuracy)
  show ?thesis
  proof (cases "activeWatches s = []")
    case True
    then show ?thesis using assms Position by (simp add: deliverFix_def)
  next
    case False
    then have run: "state s = Running" using assms(2) by (cases "state s") auto
    then have "mapPresent s" using assms(3) by simp
    then show ?thesis using assms(1) run Position False
      by (simp add: deliverFix_def handlePositionUpdate_def addCoordinate_def
            getRouteCoordinates_def Let_def)
  qed
next
  case (PositionError code)
  then show ?thesis using assms
    by (cases code; cases "state s") (auto simp: deliverError_def handlePositionError_def)
qed

lemma run_ui_lastInv: "lastInv (run_ui evs)"
proof (induction evs rule: rev_induct)
  case Nil
  show ?case by (simp add: run_ui_def initial_def)
next
  case (snoc e evs)
  show ?case unfolding run_ui_snoc
    using snoc run_ui_watchInv [of evs] run_ui_loadedInv [of evs] by (rule ui_step_lastInv)
qed

lemma ui_step_subscribes:
  "nextWatchId (ui_step s e) \<noteq> nextWatchId s \<Longrightarrow>
     (state s = Stopped \<or> state s = Paused) \<and> state (ui_step s e) = Running"
  by (cases e; cases "state s")
     (auto simp: tracker_defs handlePlayPause_def handleFinish_def Let_def
           split: option.splits GeolocationPositionError.splits SetItemResult.splits if_splits)

subsection \<open>What each operation leaves alone\<close>

lemma handlePositionUpdate_route:
  "routeCoordinates (handlePositionUpdate s lng lat accuracy) = routeCoordinates s \<or>
   routeCoordinates (handlePositionUpdate s lng lat accuracy) = routeCoordinates s @ [(lng, lat)]"
  by (simp add: handlePositionUpdate_def addCoordinate_def getRouteCoordinates_def Let_def)

lemma stopWatching_fields:
  "state (stopWatching s) = state s" "startTime (stopWatching s) = startTime s"
  "pausedTime (stopWatching s) = pausedTime s" "pauseStart (stopWatching s) = pauseStart s"
  "currentRunId (stopWatching s) = currentRunId s" "lastPosition (stopWatching s) = lastPosition s"
  "routeCoordinates (stopWatching s) = routeCoordinates s" "mapPresent (stopWatching s) = mapPresent s"
  "savedRuns (stopWatching s) = savedRuns s" "storedRuns (stopWatching s) = storedRuns s"
  "stateChanges (stopWatching s) = stateChanges s"
  "distanceUpdates (stopWatching s) = distanceUpdates s" "alerts (stopWatching s) = alerts s"
  "nextWatchId (stopWatching s) = nextWatchId s" "watchId (stopWatching s) = None"
  by (simp_all add: stopWatching_def clearWatch_def split: option.splits)

lemma getElapsedTime_stopWatching: "getElapsedTime (stopWatching s) now = getElapsedTime s now"
  by (simp add: getElapsedTime_def stopWatching_fields split: option.splits)

lemma getElapsedTime_pos_startTime:
  "0 < getElapsedTime s now \<Longrightarrow> \<exists>st. startTime s = Some st \<and> st \<noteq> 0"
  by (auto simp: getElapsedTime_def split: option.splits if_splits)

lemma getElapsedTime_agree:
  "state t = state j \<Longrightarrow> startTime t = startTime j \<Longrightarrow> pausedTime t = pausedTime j \<Longrightarrow>
     pauseStart t = pauseStart j \<Longrightarrow> getElapsedTime t now = getElapsedTime j now"
  by (simp add: getElapsedTime_def split: option.splits)

lemma saveRun_fields:
  "state (fst (saveRun s run first retry)) = state s"
  "watchId (fst (saveRun s run first retry)) = watchId s"
  "startTime (fst (saveRun s run first retry)) = startTime s"
  "pausedTime (fst (saveRun s run first retry)) = pausedTime s"
  "pauseStart (fst (saveRun s run first retry)) = pauseStart s"
  "currentRunId (fst (saveRun s run first retry)) = currentRunId s"
  "lastPosition (fst (saveRun s run first retry)) = lastPosition s"
  "routeCoordinates (fst (saveRun s run first retry)) = routeCoordinates s"
  "mapPresent (fst (saveRun s run first retry)) = mapPresent s"
  "activeWatches (fst (saveRun s run first retry)) = activeWatches s"
  "nextWatchId (fst (saveRun s run first retry)) = nextWatchId s"
  "stateChanges (fst (saveRun s run first retry)) = stateChanges s"
  "distanceUpdates (fst (saveRun s run first retry)) = distanceUpdates s"
  "alerts (fst (saveRun s run first retry)) = alerts s"
  "savedRuns (fst (saveRun s run first retry)) = run # savedRuns s"
  by (simp_all add: saveRun_def Let_def split: SetItemResult.splits)

lemma saveRun_raises:
  "snd (saveRun s run first retry) =
     (if saveRaises first retry
      then Some (if retry = QuotaExceededError then DOMException else OtherException) else None)"
  by (simp add: saveRun_def Let_def split: SetItemResult.splits)

lemma saveRun_stored:
  "storedRuns (fst (saveRun s run first retry)) =
     (if first = Written then run # storedRuns s
      else if first = QuotaExceededError \<and> retry = Written then take 50 (run # storedRuns s)
      else storedRuns s)"
  by (simp add: saveRun_def getRuns_def Let_def split: SetItemResult.splits)

lemma finishRun_route:
  "routeCoordinates (fst (finishRun s now endNow first retry)) = routeCoordinates s"
  by (simp add: finishRun_def Let_def resetState_def saveRun_def stopWatching_fields
        split: option.splits SetItemResult.splits)

lemma finishRun_distanceUpdates:
  "distanceUpdates (fst (finishRun s now endNow first retry)) = distanceUpdates s"
  "distanceUpdates (fst (finishRun_js s now endNow first retry)) = distanceUpdates s"
  by (simp_all add: finishRun_def finishRun_js_def Let_def resetState_def saveRun_def
        clearRoute_def stopWatching_fields split: option.splits SetItemResult.splits)

lemma startTracking_position:
  "lastPosition (startTracking s geo stamp suffix now) = lastPosition s"
  "distanceUpdates (startTracking s geo stamp suffix now) = distanceUpdates s"
  by (simp_all add: startTracking_def Let_def clearRoute_def watchPosition_def split: option.splits)

lemma pauseTracking_position:
  "lastPosition (pauseTracking s now) = lastPosition s"
  "distanceUpdates (pauseTracking s now) = distanceUpdates s"
  by (simp_all add: pauseTracking_def Let_def stopWatching_fields)

lemma step_ts_clears:
  "routeCoordinates (step_ts s e) = [] \<Longrightarrow> routeCoordinates s \<noteq> [] \<Longrightarrow>
     state s = Stopped \<and> (\<exists>stamp suffix now. e = Start True stamp suffix now)"
proof (cases e)
  case (Finish now endNow first retry)
  assume "routeCoordinates (step_ts s e) = []" "routeCoordinates s \<noteq> []"
  then show ?thesis using Finish by (simp add: finishRun_route)
qed (auto simp: startTracking_def pauseTracking_def handlePositionUpdate_def
       handlePositionError_def stopWatching_def clearWatch_def watchPosition_def clearRoute_def
       addCoordinate_def getRouteCoordinates_def initMap_def deliverFix_def deliverError_def
       Let_def split: option.splits GeolocationPositionError.splits if_splits)

subsection \<open>What finishing resets and saves\<close>

lemma finishRun_raises:
  assumes "state s \<noteq> Stopped" and "currentRunId s = Some rid" and "rid \<noteq> []"
  shows "snd (finishRun s now endNow first retry) =
     (if hasData s now \<and> saveRaises first retry
      then Some (if retry = QuotaExceededError then DOMException else OtherException) else None)"
proof (cases "hasData s now")
  case True
  then obtain st where st: "startTime s = Some st" "st \<noteq> 0"
    using getElapsedTime_pos_startTime by blast
  show ?thesis
    using assms True st
    by (simp add: finishRun_def Let_def stopWatching_fields getElapsedTime_stopWatching
          getRouteCoordinates_def truthyStr_def truthyNum_def saveRun_def
          split: SetItemResult.splits)
next
  case False
  then show ?thesis
    using assms
    by (auto simp: finishRun_def Let_def stopWatching_fields getElapsedTime_stopWatching
          getRouteCoordinates_def)
qed

lemma finishRun_js_raises:
  assumes "state s \<noteq> Stopped"
  shows "snd (finishRun_js s now endNow first retry) =
     (if hasData s now \<and> saveRaises first retry
      then Some (if retry = QuotaExceededError then DOMException else OtherException) else None)"
  using assms
  by (simp add: finishRun_js_def Let_def stopWatching_fields getElapsedTime_stopWatching
        getRouteCoordinates_def saveRun_def split: SetItemResult.splits)

lemma finishRun_reset:
  assumes "state s \<noteq> Stopped" and "snd (finishRun s now endNow first retry) = None"
  shows "state (fst (finishRun s now endNow first retry)) = Stopped \<and>
     startTime (fst (finishRun s now endNow first retry)) = None \<and>
     pausedTime (fst (finishRun s now endNow first retry)) = 0 \<and>
     pauseStart (fst (finishRun s now endNow first retry)) = None \<and>
     currentRunId (fst (finishRun s now endNow first retry)) = None \<and>
     lastPosition (fst (finishRun s now endNow first retry)) = None \<and>
     watchId (fst (finishRun s now endNow first retry)) = None \<and>
     stateChanges (fst (finishRun s now endNow first retry)) = stateChanges s @ [Stopped]"
  using assms
  by (auto simp: finishRun_def Let_def resetState_def saveRun_def stopWatching_fields
        split: option.splits SetItemResult.splits if_splits)

lemma finishRun_js_reset:
  assumes "state s \<noteq> Stopped" and "snd (finishRun_js s now endNow first retry) = None"
  shows "state (fst (finishRun_js s now endNow first retry)) = Stopped \<and>
     startTime (fst (finishRun_js s now endNow first retry)) = None \<and>
     pausedTime (fst (finishRun_js s now endNow first retry)) = 0 \<and>
     pauseStart (fst (finishRun_js s now endNow first retry)) = None \<and>
     currentRunId (fst (finishRun_js s now endNow first retry)) = None \<and>
     lastPosition (fst (finishRun_js s now endNow first retry)) = None \<and>
     watchId (fst (finishRun_js s now endNow first retry)) = None \<and>
     stateChanges (fst (finishRun_js s now endNow first retry)) = stateChanges s @ [Stopped] \<and>
     routeCoordinates (fst (finishRun_js s now endNow first retry)) = []"
  using assms
  by (auto simp: finishRun_js_def Let_def resetState_def saveRun_def clearRoute_def
        stopWatching_fields split: option.splits SetItemResult.splits if_splits)

lemma finishRun_aborted:
  assumes "snd (finishRun s now endNow first retry) \<noteq> None"
  shows "state (fst (finishRun s now endNow first retry)) = state s \<and>
     startTime (fst (finishRun s now endNow first retry)) = startTime s \<and>
     pausedTime (fst (finishRun s now endNow first retry)) = pausedTime s \<and>
     pauseStart (fst (finishRun s now endNow first retry)) = pauseStart s \<and>
     currentRunId (fst (finishRun s now endNow first retry)) = currentRunId s \<and>
     lastPosition (fst (finishRun s now endNow first retry)) = lastPosition s \<and>
     watchId (fst (finishRun s now endNow first retry)) = None \<and>
     stateChanges (fst (finishRun s now endNow first retry)) = stateChanges s"
  using assms
  by (auto simp: finishRun_def Let_def resetState_def saveRun_def stopWatching_fields
        split: option.splits SetItemResult.splits if_splits)

lemma finishRun_js_aborted:
  assumes "snd (finishRun_js s now endNow first retry) \<noteq> None"
  shows "state (fst (finishRun_js s now endNow first retry)) = state s \<and>
     startTime (fst (finishRun_js s now endNow first retry)) = startTime s \<and>
     pausedTime (fst (finishRun_js s now endNow first retry)) = pausedTime s \<and>
     pauseStart (fst (finishRun_js s now endNow first retry)) = pauseStart s \<and>
     currentRunId (fst (finishRun_js s now endNow first retry)) = currentRunId s \<and>
     lastPosition (fst (finishRun_js s now endNow first retry)) = lastPosition s \<and>
     watchId (fst (finishRun_js s now endNow first retry)) = None \<and>
     stateChanges (fst (finishRun_js s now endNow first retry)) = stateChanges s \<and>
     routeCoordinates (fst (finishRun_js s now endNow first retry)) = routeCoordinates s"
  using assms
  by (auto simp: finishRun_js_def Let_def resetState_def saveRun_def clearRoute_def
        stopWatching_fields split: option.splits SetItemResult.splits if_splits)

lemma finishRun_env:
  "mapPresent (fst (finishRun s now endNow first retry)) = mapPresent s"
  "nextWatchId (fst (finishRun s now endNow first retry)) = nextWatchId s"
  "alerts (fst (finishRun s now endNow first retry)) = alerts s"
  "activeWatches (fst (finishRun s now endNow first retry)) =
     (if state s = Stopped then activeWatches s else activeWatches (stopWatching s))"
  "mapPresent (fst (finishRun_js s now endNow first retry)) = mapPresent s"
  "nextWatchId (fst (finishRun_js s now endNow first retry)) = nextWatchId s"
  "alerts (fst (finishRun_js s now endNow first retry)) = alerts s"
  "activeWatches (fst (finishRun_js s now endNow first retry)) =
     (if state s = Stopped then activeWatches s else activeWatches (stopWatching s))"
  by (simp_all add: finishRun_def finishRun_js_def Let_def resetState_def saveRun_def
        clearRoute_def stopWatching_fields split: option.splits SetItemResult.splits)

text \<open>The record that \<^verbatim>\<open>finishRun\<close> builds, in both variants.\<close>

lemma finishRun_saved:
  assumes "state s \<noteq> Stopped" and "currentRunId s = Some rid" and "rid \<noteq> []"
  shows "savedRuns (fst (finishRun s now endNow first retry)) =
     (if hasData s now
      then \<lparr>run_id = currentRunId s, run_startTime = (case startTime s of None \<Rightarrow> 0 | Some st \<Rightarrow> st),
            run_endTime = endNow, run_duration = getElapsedTime s now,
            run_distance = getCurrentDistance s, run_coordinates = getRouteCoordinates s\<rparr> # savedRuns s
      else savedRuns s)"
proof (cases "hasData s now")
  case True
  then obtain st where st: "startTime s = Some st" "st \<noteq> 0"
    using getElapsedTime_pos_startTime by blast
  show ?thesis
    using assms True st
    by (simp add: finishRun_def Let_def resetState_def saveRun_def stopWatching_fields
          getElapsedTime_stopWatching getRouteCoordinates_def getCurrentDistance_def
          truthyStr_def truthyNum_def split: SetItemResult.splits)
next
  case False
  then show ?thesis
    using assms
    by (auto simp: finishRun_def Let_def resetState_def saveRun_def stopWatching_fields
          getElapsedTime_stopWatching getRouteCoordinates_def)
qed

lemma finishRun_js_saved:
  assumes "state s \<noteq> Stopped"
  shows "savedRuns (fst (finishRun_js s now endNow first retry)) =
     (if hasData s now
      then \<lparr>run_id = currentRunId s, run_startTime = (case startTime s of None \<Rightarrow> 0 | Some st \<Rightarrow> st),
            run_endTime = endNow, run_duration = getElapsedTime s now,
            run_distance = getCurrentDistance s, run_coordinates = getRouteCoordinates s\<rparr> # savedRuns s
      else savedRuns s)"
  using assms
  by (simp add: finishRun_js_def Let_def resetState_def saveRun_def stopWatching_fields
        clearRoute_def getElapsedTime_stopWatching getRouteCoordinates_def getCurrentDistance_def
        calculateTotalDistance_js_def split: SetItemResult.splits)

lemma finishRun_stored:
  assumes "state s \<noteq> Stopped" and "currentRunId s = Some rid" and "rid \<noteq> []"
  shows "storedRuns (fst (finishRun s now endNow first retry)) =
           storedRuns (fst (finishRun_js s now endNow first retry))"
proof (cases "hasData s now")
  case True
  then obtain st where st: "startTime s = Some st" "st \<noteq> 0"
    using getElapsedTime_pos_startTime by blast
  show ?thesis
    using assms True st
    by (simp add: finishRun_def finishRun_js_def Let_def resetState_def saveRun_def getRuns_def
          clearRoute_def stopWatching_fields getElapsedTime_stopWatching getRouteCoordinates_def
          truthyStr_def truthyNum_def calculateTotalDistance_js_def split: SetItemResult.splits)
next
  case False
  then show ?thesis
    using assms
    by (auto simp: finishRun_def finishRun_js_def Let_def resetState_def clearRoute_def
          stopWatching_fields getElapsedTime_stopWatching getRouteCoordinates_def)
qed

subsection \<open>The two variants side by side\<close>

lemma step_agree:
  assumes "agree t j" and "idInv t" and "routeInv j"
  shows "agree (step_ts t e) (step_js j e)"
proof (cases e)
  case InitMap
  then show ?thesis using assms by (simp add: initMap_def)
next
  case (Start geo stamp suffix now)
  then show ?thesis using assms
    by (cases "state j") (auto simp: tracker_defs Let_def split: option.splits)
next
  case (Pause now)
  then show ?thesis using assms
    by (cases "state j") (auto simp: tracker_defs Let_def split: option.splits)
next
  case (Finish now endNow first retry)
  show ?thesis
  proof (cases "state t = Stopped")
    case True
    then show ?thesis using assms Finish by (simp add: finishRun_def finishRun_js_def)
  next
    case False
    then have nj: "state j \<noteq> Stopped" using assms by simp
    obtain rid where rid: "currentRunId t = Some rid" "rid \<noteq> []" using assms False by blast
    have el: "getElapsedTime t now = getElapsedTime j now"
      using assms by (intro getElapsedTime_agree) simp_all
    have rt: "routeCoordinates t = routeCoordinates j" using assms False by simp
    have raises: "snd (finishRun t now endNow first retry) = snd (finishRun_js j now endNow first retry)"
      unfolding finishRun_raises [OF False rid] finishRun_js_raises [OF nj]
      using el rt by (simp add: getRouteCoordinates_def)
    have saved: "savedRuns (fst (finishRun t now endNow first retry)) =
                 savedRuns (fst (finishRun_js j now endNow first retry))"
      unfolding finishRun_saved [OF False rid] finishRun_js_saved [OF nj]
      using assms False el by (simp add: getRouteCoordinates_def getCurrentDistance_def)
    have "storedRuns (fst (finishRun_js t now endNow first retry)) =
          storedRuns (fst (finishRun_js j now endNow first retry))"
      using assms False nj el rt
      by (simp add: finishRun_js_def Let_def resetState_def saveRun_def getRuns_def clearRoute_def
            stopWatching_fields getElapsedTime_stopWatching getRouteCoordinates_def
            split: SetItemResult.splits)
    then have stored: "storedRuns (fst (finishRun t now endNow first retry)) =
                 storedRuns (fst (finishRun_js j now endNow first retry))"
      using finishRun_stored [OF False rid, of now endNow first retry] by simp
    have "activeWatches (stopWatching t) = activeWatches (stopWatching j)"
      using assms by (simp add: stopWatching_def clearWatch_def split: option.splits)
    then have env: "mapPresent (fst (finishRun t now endNow first retry)) =
                    mapPresent (fst (finishRun_js j now endNow first retry))"
      "nextWatchId (fst (finishRun t now endNow first retry)) =
         nextWatchId (fst (finishRun_js j now endNow first retry))"
      "alerts (fst (finishRun t now endNow first retry)) =
         alerts (fst (finishRun_js j now endNow first retry))"
      "activeWatches (fst (finishRun t now endNow first retry)) =
         activeWatches (fst (finishRun_js j now endNow first retry))"
      using assms False nj by (simp_all add: finishRun_env)
    show ?thesis
    proof (cases "snd (finishRun t now endNow first retry) = None")
      case True
      then have "snd (finishRun_js j now endNow first retry) = None" using raises by simp
      then show ?thesis
        using finishRun_reset [OF False True] finishRun_js_reset [OF nj] saved stored env Finish
          assms
        by simp
    next
      case ab: False
      then have "snd (finishRun_js j now endNow first retry) \<noteq> None" using raises by simp
      then show ?thesis
        using finishRun_aborted [OF ab] finishRun_js_aborted [of j now endNow first retry]
          finishRun_route [of t now endNow first retry] saved stored env Finish assms
        by simp
    qed
  qed
next
  case (Fix longitude latitude accuracy)
  then show ?thesis using assms
    by (cases "state j") (auto simp: tracker_defs Let_def)
next
  case (FixError code)
  then show ?thesis using assms
    by (cases code) (auto simp: tracker_defs)
qed

lemma run_agree: "agree (run_ts evs) (run_js evs)"
proof (induction evs rule: rev_induct)
  case Nil
  show ?case by (simp add: run_ts_def run_js_def)
next
  case (snoc e evs)
  show ?case unfolding run_ts_snoc run_js_snoc
    using snoc run_ts_idInv [of evs] run_js_routeInv [of evs] by (rule step_agree)
qed

lemma finishRun_position_agree:
  assumes "agree t j" and "idInv t" and "lastPosition t = lastPosition j"
  shows "lastPosition (fst (finishRun t now endNow first retry)) =
         lastPosition (fst (finishRun_js j now endNow first retry))"
proof (cases "state t = Stopped")
  case True
  then show ?thesis using assms by (simp add: finishRun_def finishRun_js_def)
next
  case False
  then have nj: "state j \<noteq> Stopped" using assms by simp
  obtain rid where rid: "currentRunId t = Some rid" "rid \<noteq> []" using assms False by blast
  have el: "getElapsedTime t now = getElapsedTime j now"
    using assms by (intro getElapsedTime_agree) simp_all
  have rt: "routeCoordinates t = routeCoordinates j" using assms False by simp
  have raises: "snd (finishRun t now endNow first retry) = snd (finishRun_js j now endNow first retry)"
    unfolding finishRun_raises [OF False rid] finishRun_js_raises [OF nj]
    using el rt by (simp add: getRouteCoordinates_def)
  show ?thesis
  proof (cases "snd (finishRun t now endNow first retry) = None")
    case True
    then have "snd (finishRun_js j now endNow first retry) = None" using raises by simp
    then show ?thesis using finishRun_reset [OF False True] finishRun_js_reset [OF nj] by simp
  next
    case ab: False
    then have "snd (finishRun_js j now endNow first retry) \<noteq> None" using raises by simp
    then show ?thesis
      using finishRun_aborted [OF ab] finishRun_js_aborted [of j now endNow first retry] assms(3)
      by simp
  qed
qed

lemma ui_step_agree:
  assumes "agree t j" and "idInv t" and "routeInv j"
  shows "agree (ui_step t e) (ui_step_js j e)"
proof (cases e)
  case Load
  then show ?thesis using step_agree [OF assms, of InitMap] by simp
next
  case (PlayPauseClick geo stamp suffix now)
  have sj: "state j = state t" "mapPresent j = mapPresent t" using assms by simp_all
  show ?thesis
  proof (cases "mapPresent t")
    case False
    then have "\<not> mapPresent j" using sj by simp
    then show ?thesis using assms PlayPauseClick False by simp
  next
    case True
    show ?thesis
    proof (cases "state t = Running")
      case True
      then show ?thesis
        using step_agree [OF assms, of "Pause now"] PlayPauseClick sj \<open>mapPresent t\<close>
        by (simp add: handlePlayPause_def getState_def)
    next
      case False
      then have "state t = Stopped \<or> state t = Paused" by (cases "state t") simp_all
      then show ?thesis
        using step_agree [OF assms, of "Start geo stamp suffix now"] PlayPauseClick sj
          \<open>mapPresent t\<close>
        by (auto simp: handlePlayPause_def getState_def)
    qed
  qed
next
  case (FinishClick confirmed now endNow first retry)
  show ?thesis
  proof (cases "confirmed \<and> mapPresent t")
    case True
    then have "mapPresent j" using assms by simp
    then show ?thesis
      using step_agree [OF assms, of "Finish now endNow first retry"] FinishClick True
      by (simp add: handleFinish_def handleFinish_js_def)
  next
    case False
    then have "\<not> (confirmed \<and> mapPresent j)" using assms by simp
    then show ?thesis
      using assms FinishClick False
      by (auto simp: handleFinish_def handleFinish_js_def)
  qed
next
  case (Position longitude latitude accuracy)
  then show ?thesis using step_agree [OF assms, of "Fix longitude latitude accuracy"] by simp
next
  case (PositionError code)
  then show ?thesis using step_agree [OF assms, of "FixError code"] by simp
qed

lemma ui_step_agree_position:
  assumes "agree t j" and "watchInv t" and "loadedInv t"
    and "lastPosition t = lastPosition j" and "distanceUpdates t = distanceUpdates j"
    and "idInv t"
  shows "lastPosition (ui_step t e) = lastPosition (ui_step_js j e) \<and>
         distanceUpdates (ui_step t e) = distanceUpdates (ui_step_js j e)"
proof (cases e)
  case Load
  then show ?thesis using assms by (simp add: initMap_def)
next
  case (PlayPauseClick geo stamp suffix now)
  then show ?thesis using assms
    by (simp add: handlePlayPause_def getState_def Let_def startTracking_position
          pauseTracking_position)
next
  case (FinishClick confirmed now endNow first retry)
  have "lastPosition (fst (finishRun t now endNow first retry)) =
        lastPosition (fst (finishRun_js j now endNow first retry))"
    using assms(1,6,4) by (rule finishRun_position_agree)
  then show ?thesis using assms FinishClick
    by (simp add: handleFinish_def handleFinish_js_def finishRun_distanceUpdates)
next
  case (Position longitude latitude accuracy)
  show ?thesis
  proof (cases "activeWatches t = []")
    case True
    then show ?thesis using assms Position by (simp add: deliverFix_def deliverFix_js_def)
  next
    case False
    then have run: "state t = Running" using assms(2) by (cases "state t") auto
    then have "routeCoordinates t = routeCoordinates j" using assms(1) by simp
    moreover have "mapPresent t" "mapPresent j" using run assms(1,3) by simp_all
    ultimately show ?thesis using assms Position False
      by (simp add: deliverFix_def deliverFix_js_def handlePositionUpdate_def
            handlePositionUpdate_js_def addCoordinate_def addCoordinate_js_def
            getRouteCoordinates_def haversineDistance_js_def calculateTotalDistance_js_def Let_def)
  qed
next
  case (PositionError code)
  then show ?thesis using assms
    by (cases code) (simp_all add: deliverError_def handlePositionError_def)
qed

lemma ui_step_js_routeInv: "routeInv s \<Longrightarrow> routeInv (ui_step_js s e)"
  by (cases e)
     (auto simp: tracker_defs handlePlayPause_def handleFinish_js_def Let_def
           split: option.splits GeolocationPositionError.splits SetItemResult.splits)

lemma run_ui_js_routeInv: "routeInv (run_ui_js evs)"
proof (induction evs rule: rev_induct)
  case Nil
  show ?case by (simp add: run_ui_js_def initial_def)
next
  case (snoc e evs)
  then show ?case unfolding run_ui_js_snoc by (rule ui_step_js_routeInv)
qed

lemma run_ui_agree:
  "agree (run_ui evs) (run_ui_js evs) \<and>
   lastPosition (run_ui evs) = lastPosition (run_ui_js evs) \<and>
   distanceUpdates (run_ui evs) = distanceUpdates (run_ui_js evs)"
proof (induction evs rule: rev_induct)
  case Nil
  show ?case by (simp add: run_ui_def run_ui_js_def)
next
  case (snoc e evs)
  have a: "agree (run_ui evs) (run_ui_js evs)" using snoc by blast
  have "agree (ui_step (run_ui evs) e) (ui_step_js (run_ui_js evs) e)"
    using a run_ui_idInv [of evs] run_ui_js_routeInv [of evs] by (rule ui_step_agree)
  moreover have "lastPosition (ui_step (run_ui evs) e) = lastPosition (ui_step_js (run_ui_js evs) e) \<and>
         distanceUpdates (ui_step (run_ui evs) e) = distanceUpdates (ui_step_js (run_ui_js evs) e)"
    using a run_ui_watchInv [of evs] run_ui_loadedInv [of evs] run_ui_idInv [of evs] snoc
    by (intro ui_step_agree_position) simp_all
  ultimately show ?case unfolding run_ui_snoc run_ui_js_snoc by blast
qed

section \<open>The claims about the geo math\<close>

text \<open>
  C7. For every sequence of coordinates, \<^verbatim>\<open>calculateTotalDistance\<close> returns 0 when the
  sequence has fewer than two elements, and otherwise the sum of the distances between
  consecutive elements, \<open>distance(p\<^sub>i\<^sub>-\<^sub>1, p\<^sub>i)\<close> for \<open>i\<close> from 1 to the last index.
\<close>

theorem C7_calculateTotalDistance_sum:
  "calculateTotalDistance ps =
     (if length ps < 2 then 0
      else (\<Sum>i = 1..<length ps. haversineDistance (ps ! (i - 1)) (ps ! i)))"
proof (cases "length ps < 2")
  case True
  then show ?thesis by (simp add: calculateTotalDistance_def)
next
  case False
  then show ?thesis by (simp add: calculateTotalDistance_eq_sum)
qed

section \<open>The claims about the run tracker\<close>

text \<open>
  C1, as the code has it. \<^verbatim>\<open>startTracking\<close> has no guard of its own for the running
  state: called while running it subscribes again. The guard is in its caller
  \<^verbatim>\<open>handlePlayPause\<close>, which starts only from stopped or paused. So after every sequence
  of user-interface events (page load, play/pause clicks, finish clicks, position
  callbacks) at most one subscription of the position source is active, none is active
  unless the state is running, and a step creates a subscription only when it leaves
  stopped or paused for running.
\<close>

theorem C1_ui_single_subscription:
  "length (activeWatches (run_ui evs)) \<le> 1 \<and>
   (activeWatches (run_ui evs) \<noteq> [] \<longrightarrow> state (run_ui evs) = Running) \<and>
   (nextWatchId (ui_step (run_ui evs) e) \<noteq> nextWatchId (run_ui evs) \<longrightarrow>
      (state (run_ui evs) = Stopped \<or> state (run_ui evs) = Paused) \<and>
      state (ui_step (run_ui evs) e) = Running)"
proof -
  have "watchInv (run_ui evs)" by (rule run_ui_watchInv)
  then have "length (activeWatches (run_ui evs)) \<le> 1"
    and "activeWatches (run_ui evs) \<noteq> [] \<longrightarrow> state (run_ui evs) = Running"
    by (cases "state (run_ui evs)"; auto)+
  then show ?thesis using ui_step_subscribes [of "run_ui evs" e] by blast
qed

theorem C1_ui_single_subscription_witness:
  "nextWatchId (ui_step (run_ui [Load]) (PlayPauseClick True ''1'' ''a'' 1)) \<noteq>
     nextWatchId (run_ui [Load]) \<and>
   state (run_ui [Load]) = Stopped \<and>
   state (ui_step (run_ui [Load]) (PlayPauseClick True ''1'' ''a'' 1)) = Running \<and>
   length (activeWatches (run_ui [Load, PlayPauseClick True ''1'' ''a'' 1])) \<le> 1 \<and>
   activeWatches (run_ui [Load, PlayPauseClick True ''1'' ''a'' 1]) \<noteq> [] \<and>
   state (run_ui [Load, PlayPauseClick True ''1'' ''a'' 1]) = Running"
  using C1_ui_single_subscription [of "[Load]" "PlayPauseClick True ''1'' ''a'' 1"]
    C1_ui_single_subscription [of "[Load, PlayPauseClick True ''1'' ''a'' 1]" Load]
  by (simp add: run_ui_def initial_def handlePlayPause_def tracker_defs Let_def)

text \<open>
  C1 as stated fails on \<^verbatim>\<open>startTracking\<close> itself: a second call while running leaves
  two active subscriptions, and \<open>watchId\<close> remembers only the second.
\<close>

theorem C1_double_start_counterexample:
  "state (run_ts [Start True ''1'' ''a'' 5]) = Running \<and>
   activeWatches (run_ts [Start True ''1'' ''a'' 5]) = [1] \<and>
   activeWatches (run_ts [Start True ''1'' ''a'' 5, Start True ''2'' ''b'' 6]) = [1, 2] \<and>
   watchId (run_ts [Start True ''1'' ''a'' 5, Start True ''2'' ''b'' 6]) = Some 2"
  by (simp add: run_ts_def initial_def tracker_defs Let_def)

text \<open>
  What \<^verbatim>\<open>finishRun\<close> does when \<^verbatim>\<open>saveRun\<close> returns: from running or paused it ends in
  stopped, a Run record is handed to \<^verbatim>\<open>saveRun\<close> exactly when the route is non-empty
  and the computed duration is positive, and the session variables are reset. For the
  TypeScript variant this is stated of the states a sequence of operations reaches (its
  extra test of the run id holds there); for the JavaScript variant of every state.
\<close>

lemma finishRun_when_saveRun_returns:
  assumes "\<not> saveRaises first retry"
  shows
  "(state (run_ts evs) \<noteq> Stopped \<longrightarrow>
      snd (finishRun (run_ts evs) now endNow first retry) = None \<and>
      state (fst (finishRun (run_ts evs) now endNow first retry)) = Stopped \<and>
      savedRuns (fst (finishRun (run_ts evs) now endNow first retry)) =
        (if getRouteCoordinates (run_ts evs) \<noteq> [] \<and> 0 < getElapsedTime (run_ts evs) now
         then \<lparr>run_id = currentRunId (run_ts evs),
               run_startTime = (case startTime (run_ts evs) of None \<Rightarrow> 0 | Some st \<Rightarrow> st),
               run_endTime = endNow, run_duration = getElapsedTime (run_ts evs) now,
               run_distance = getCurrentDistance (run_ts evs),
               run_coordinates = getRouteCoordinates (run_ts evs)\<rparr> # savedRuns (run_ts evs)
         else savedRuns (run_ts evs)) \<and>
      startTime (fst (finishRun (run_ts evs) now endNow first retry)) = None \<and>
      pausedTime (fst (finishRun (run_ts evs) now endNow first retry)) = 0 \<and>
      pauseStart (fst (finishRun (run_ts evs) now endNow first retry)) = None \<and>
      currentRunId (fst (finishRun (run_ts evs) now endNow first retry)) = None \<and>
      lastPosition (fst (finishRun (run_ts evs) now endNow first retry)) = None \<and>
      watchId (fst (finishRun (run_ts evs) now endNow first retry)) = None) \<and>
   (state s \<noteq> Stopped \<longrightarrow>
      snd (finishRun_js s now endNow first retry) = None \<and>
      state (fst (finishRun_js s now endNow first retry)) = Stopped \<and>
      savedRuns (fst (finishRun_js s now endNow first retry)) =
        (if getRouteCoordinates s \<noteq> [] \<and> 0 < getElapsedTime s now
         then \<lparr>run_id = currentRunId s,
               run_startTime = (case startTime s of None \<Rightarrow> 0 | Some st \<Rightarrow> st),
               run_endTime = endNow, run_duration = getElapsedTime s now,
               run_distance = getCurrentDistance s,
               run_coordinates = getRouteCoordinates s\<rparr> # savedRuns s
         else savedRuns s) \<and>
      startTime (fst (finishRun_js s now endNow first retry)) = None \<and>
      pausedTime (fst (finishRun_js s now endNow first retry)) = 0 \<and>
      pauseStart (fst (finishRun_js s now endNow first retry)) = None \<and>
      currentRunId (fst (finishRun_js s now endNow first retry)) = None \<and>
      lastPosition (fst (finishRun_js s now endNow first retry)) = None \<and>
      watchId (fst (finishRun_js s now endNow first retry)) = None)"
proof (intro conjI impI)
  assume ns: "state (run_ts evs) \<noteq> Stopped"
  then obtain rid where rid: "currentRunId (run_ts evs) = Some rid" "rid \<noteq> []"
    using run_ts_idInv [of evs] by blast
  show ret: "snd (finishRun (run_ts evs) now endNow first retry) = None"
    using assms by (simp add: finishRun_raises [OF ns rid])
  show "savedRuns (fst (finishRun (run_ts evs) now endNow first retry)) =
        (if getRouteCoordinates (run_ts evs) \<noteq> [] \<and> 0 < getElapsedTime (run_ts evs) now
         then \<lparr>run_id = currentRunId (run_ts evs),
               run_startTime = (case startTime (run_ts evs) of None \<Rightarrow> 0 | Some st \<Rightarrow> st),
               run_endTime = endNow, run_duration = getElapsedTime (run_ts evs) now,
               run_distance = getCurrentDistance (run_ts evs),
               run_coordinates = getRouteCoordinates (run_ts evs)\<rparr> # savedRuns (run_ts evs)
         else savedRuns (run_ts evs))"
    using ns rid by (rule finishRun_saved)
  show "state (fst (finishRun (run_ts evs) now endNow first retry)) = Stopped"
    "startTime (fst (finishRun (run_ts evs) now endNow first retry)) = None"
    "pausedTime (fst (finishRun (run_ts evs) now endNow first retry)) = 0"
    "pauseStart (fst (finishRun (run_ts evs) now endNow first retry)) = None"
    "currentRunId (fst (finishRun (run_ts evs) now endNow first retry)) = None"
    "lastPosition (fst (finishRun (run_ts evs) now endNow first retry)) = None"
    "watchId (fst (finishRun (run_ts evs) now endNow first retry)) = None"
    using finishRun_reset [OF ns ret] by simp_all
next
  assume ns: "state s \<noteq> Stopped"
  show ret: "snd (finishRun_js s now endNow first retry) = None"
    using assms by (simp add: finishRun_js_raises [OF ns])
  show "savedRuns (fst (finishRun_js s now endNow first retry)) =
        (if getRouteCoordinates s \<noteq> [] \<and> 0 < getElapsedTime s now
         then \<lparr>run_id = currentRunId s,
               run_startTime = (case startTime s of None \<Rightarrow> 0 | Some st \<Rightarrow> st),
               run_endTime = endNow, run_duration = getElapsedTime s now,
               run_distance = getCurrentDistance s,
               run_coordinates = getRouteCoordinates s\<rparr> # savedRuns s
         else savedRuns s)"
    using ns by (rule finishRun_js_saved)
  show "state (fst (finishRun_js s now endNow first retry)) = Stopped"
    "startTime (fst (finishRun_js s now endNow first retry)) = None"
    "pausedTime (fst (finishRun_js s now endNow first retry)) = 0"
    "pauseStart (fst (finishRun_js s now endNow first retry)) = None"
    "currentRunId (fst (finishRun_js s now endNow first retry)) = None"
    "lastPosition (fst (finishRun_js s now endNow first retry)) = None"
    "watchId (fst (finishRun_js s now endNow first retry)) = None"
    using finishRun_js_reset [OF ns ret] by simp_all
qed

text \<open>
  C2 on the code. A run with one accepted coordinate is finished 4 ms after its start
  while \<^verbatim>\<open>localStorage.setItem\<close> raises the quota error on the write and on the retry:
  the record is handed to \<^verbatim>\<open>saveRun\<close>, the exception of the retry leaves \<^verbatim>\<open>saveRun\<close> and
  \<^verbatim>\<open>finishRun\<close>, the watch is already cancelled, and the state stays running with the
  session variables set.
\<close>

theorem C2_finishRun_save_raises:
  "state (run_ts [InitMap, Start True ''1'' ''a'' 1, Fix 0 0 10]) = Running \<and>
   getRouteCoordinates (run_ts [InitMap, Start True ''1'' ''a'' 1, Fix 0 0 10]) = [(0, 0)] \<and>
   getElapsedTime (run_ts [InitMap, Start True ''1'' ''a'' 1, Fix 0 0 10]) 5 = 4 \<and>
   snd (finishRun (run_ts [InitMap, Start True ''1'' ''a'' 1, Fix 0 0 10]) 5 6
          QuotaExceededError QuotaExceededError) = Some DOMException \<and>
   state (fst (finishRun (run_ts [InitMap, Start True ''1'' ''a'' 1, Fix 0 0 10]) 5 6
          QuotaExceededError QuotaExceededError)) = Running \<and>
   startTime (fst (finishRun (run_ts [InitMap, Start True ''1'' ''a'' 1, Fix 0 0 10]) 5 6
          QuotaExceededError QuotaExceededError)) = Some 1 \<and>
   watchId (fst (finishRun (run_ts [InitMap, Start True ''1'' ''a'' 1, Fix 0 0 10]) 5 6
          QuotaExceededError QuotaExceededError)) = None \<and>
   activeWatches (fst (finishRun (run_ts [InitMap, Start True ''1'' ''a'' 1, Fix 0 0 10]) 5 6
          QuotaExceededError QuotaExceededError)) = [] \<and>
   length (savedRuns (fst (finishRun (run_ts [InitMap, Start True ''1'' ''a'' 1, Fix 0 0 10]) 5 6
          QuotaExceededError QuotaExceededError))) = 1 \<and>
   state (fst (finishRun_js (run_js [InitMap, Start True ''1'' ''a'' 1, Fix 0 0 10]) 5 6
          QuotaExceededError QuotaExceededError)) = Running"
  by (simp add: run_ts_def run_js_def initial_def tracker_defs getElapsedTime_def Let_def
        MAX_ACCURACY_def)

text \<open>
  The branches of \<^verbatim>\<open>getElapsedTime\<close> when the clock readings held in \<open>startTime\<close> and
  \<open>pauseStart\<close> are not 0: it returns 0 when the state is stopped,
  \<open>pauseStart - startTime - pausedTime\<close> when the state is paused and
  \<open>now - startTime - pausedTime\<close> when the state is running; after a resume at reading
  \<open>r\<close> the elapsed time is the elapsed time at the pause plus the time since \<open>r\<close>.
\<close>

lemma getElapsedTime_nonzero_readings:
  "(state s = Stopped \<longrightarrow> getElapsedTime s now = 0) \<and>
   (state s = Paused \<longrightarrow> startTime s = Some st \<longrightarrow> st \<noteq> 0 \<longrightarrow>
      pauseStart s = Some ps \<longrightarrow> ps \<noteq> 0 \<longrightarrow>
      getElapsedTime s now = ps - st - pausedTime s \<and>
      getElapsedTime (startTracking s True stamp suffix r) now =
        (ps - st - pausedTime s) + (now - r)) \<and>
   (state s = Running \<longrightarrow> startTime s = Some st \<longrightarrow> st \<noteq> 0 \<longrightarrow>
      getElapsedTime s now = now - st - pausedTime s)"
  by (simp add: getElapsedTime_def tracker_defs Let_def split: option.splits)

text \<open>
  C3. \<^verbatim>\<open>getElapsedTime\<close> is to return \<open>now - startTime - pausedTime\<close> when the state is
  running. The code departs from this for a run started at clock reading 0: the guard
  \<^verbatim>\<open>if (!startTime) return 0\<close> is a truthiness test on a \<^verbatim>\<open>number | null\<close>, where
  \<^verbatim>\<open>watchId\<close> beside it is tested with \<^verbatim>\<open>!== null\<close>, and takes the reading 0 for null.
  After \<^verbatim>\<open>startTracking\<close> at reading 0 the state is running, \<open>startTime\<close> is 0 and
  \<open>pausedTime\<close> is 0; at reading 1000 \<^verbatim>\<open>getElapsedTime\<close> returns 0, not
  \<open>1000 - 0 - 0 = 1000\<close>.
\<close>

theorem C3_getElapsedTime_zero_start:
  "state (run_ts [Start True ''0'' ''a'' 0]) = Running \<and>
   startTime (run_ts [Start True ''0'' ''a'' 0]) = Some 0 \<and>
   pausedTime (run_ts [Start True ''0'' ''a'' 0]) = 0 \<and>
   getElapsedTime (run_ts [Start True ''0'' ''a'' 0]) 1000 = 0 \<and>
   getElapsedTime (run_ts [Start True ''0'' ''a'' 0]) 1000 \<noteq>
     1000 - 0 - pausedTime (run_ts [Start True ''0'' ''a'' 0])"
  by (simp add: run_ts_def initial_def tracker_defs getElapsedTime_def Let_def)

text \<open>
  C4. \<^verbatim>\<open>handlePositionUpdate\<close> leaves the whole state as it is (route, last position,
  observers) when the accuracy exceeds 30 m, and when the route has a last coordinate
  less than 3 m from the sample. Otherwise it accepts the sample: the last position
  becomes the sample, the sample is appended to the route (when the map exists), and the
  distance observer is called with the new distance. With an empty route, as at the
  first sample of a run, the sample is accepted exactly when its accuracy is at most
  30 m. The last accepted coordinate is the last coordinate of the route: in every
  state that the user interface reaches during a run, \<open>lastPosition\<close> is null when the
  route is empty and is the last coordinate of the route otherwise.
\<close>

theorem C4_position_filter:
  "(accuracy > 30 \<longrightarrow> handlePositionUpdate s lng lat accuracy = s) \<and>
   (routeCoordinates s \<noteq> [] \<and> haversineDistance (last (routeCoordinates s)) (lng, lat) < 3 \<longrightarrow>
      handlePositionUpdate s lng lat accuracy = s) \<and>
   (accuracy \<le> 30 \<and>
    (routeCoordinates s = [] \<or> 3 \<le> haversineDistance (last (routeCoordinates s)) (lng, lat)) \<longrightarrow>
      lastPosition (handlePositionUpdate s lng lat accuracy) = Some (lng, lat) \<and>
      (mapPresent s \<longrightarrow>
         routeCoordinates (handlePositionUpdate s lng lat accuracy) = routeCoordinates s @ [(lng, lat)]) \<and>
      distanceUpdates (handlePositionUpdate s lng lat accuracy) =
        distanceUpdates s @ [getCurrentDistance (handlePositionUpdate s lng lat accuracy)]) \<and>
   (routeCoordinates s = [] \<longrightarrow>
      (distanceUpdates (handlePositionUpdate s lng lat accuracy) \<noteq> distanceUpdates s
         \<longleftrightarrow> accuracy \<le> 30)) \<and>
   (state (run_ui evs) \<noteq> Stopped \<longrightarrow>
      mapPresent (run_ui evs) \<and>
      lastPosition (run_ui evs) =
        (if routeCoordinates (run_ui evs) = [] then None
         else Some (last (routeCoordinates (run_ui evs)))))"
proof -
  have "(accuracy > 30 \<longrightarrow> handlePositionUpdate s lng lat accuracy = s) \<and>
   (routeCoordinates s \<noteq> [] \<and> haversineDistance (last (routeCoordinates s)) (lng, lat) < 3 \<longrightarrow>
      handlePositionUpdate s lng lat accuracy = s) \<and>
   (accuracy \<le> 30 \<and>
    (routeCoordinates s = [] \<or> 3 \<le> haversineDistance (last (routeCoordinates s)) (lng, lat)) \<longrightarrow>
      lastPosition (handlePositionUpdate s lng lat accuracy) = Some (lng, lat) \<and>
      (mapPresent s \<longrightarrow>
         routeCoordinates (handlePositionUpdate s lng lat accuracy) = routeCoordinates s @ [(lng, lat)]) \<and>
      distanceUpdates (handlePositionUpdate s lng lat accuracy) =
        distanceUpdates s @ [getCurrentDistance (handlePositionUpdate s lng lat accuracy)]) \<and>
   (routeCoordinates s = [] \<longrightarrow>
      (distanceUpdates (handlePositionUpdate s lng lat accuracy) \<noteq> distanceUpdates s
         \<longleftrightarrow> accuracy \<le> 30))"
    by (simp add: handlePositionUpdate_def addCoordinate_def getRouteCoordinates_def
          getCurrentDistance_def MAX_ACCURACY_def MIN_MOVEMENT_def Let_def)
  moreover have "state (run_ui evs) \<noteq> Stopped \<longrightarrow>
      mapPresent (run_ui evs) \<and>
      lastPosition (run_ui evs) =
        (if routeCoordinates (run_ui evs) = [] then None
         else Some (last (routeCoordinates (run_ui evs))))"
    using run_ui_lastInv [of evs] run_ui_loadedInv [of evs] by blast
  ultimately show ?thesis by blast
qed

theorem C4_position_filter_witness:
  "(31::real) > 30 \<and>
   handlePositionUpdate (run_ts [InitMap, Start True ''1'' ''a'' 1, Fix 0 0 10]) 0 0 31 =
     run_ts [InitMap, Start True ''1'' ''a'' 1, Fix 0 0 10] \<and>
   routeCoordinates (run_ts [InitMap, Start True ''1'' ''a'' 1, Fix 0 0 10]) = [(0, 0)] \<and>
   haversineDistance (0, 0) (0, 0) < 3 \<and>
   handlePositionUpdate (run_ts [InitMap, Start True ''1'' ''a'' 1, Fix 0 0 10]) 0 0 10 =
     run_ts [InitMap, Start True ''1'' ''a'' 1, Fix 0 0 10] \<and>
   3 \<le> haversineDistance (0, 0) (180, 0) \<and>
   mapPresent (run_ts [InitMap, Start True ''1'' ''a'' 1, Fix 0 0 10]) \<and>
   lastPosition (handlePositionUpdate (run_ts [InitMap, Start True ''1'' ''a'' 1, Fix 0 0 10]) 180 0 10) =
     Some (180, 0) \<and>
   routeCoordinates (handlePositionUpdate (run_ts [InitMap, Start True ''1'' ''a'' 1, Fix 0 0 10]) 180 0 10) =
     [(0, 0), (180, 0)] \<and>
   routeCoordinates (run_ts [InitMap, Start True ''1'' ''a'' 1]) = [] \<and>
   distanceUpdates (handlePositionUpdate (run_ts [InitMap, Start True ''1'' ''a'' 1]) 0 0 10) \<noteq>
     distanceUpdates (run_ts [InitMap, Start True ''1'' ''a'' 1]) \<and>
   state (run_ui [Load, PlayPauseClick True ''1'' ''a'' 1, Position 0 0 10]) \<noteq> Stopped \<and>
   lastPosition (run_ui [Load, PlayPauseClick True ''1'' ''a'' 1, Position 0 0 10]) = Some (0, 0)"
proof -
  have r: "routeCoordinates (run_ts [InitMap, Start True ''1'' ''a'' 1, Fix 0 0 10]) = [(0, 0)]"
    "mapPresent (run_ts [InitMap, Start True ''1'' ''a'' 1, Fix 0 0 10])"
    "routeCoordinates (run_ts [InitMap, Start True ''1'' ''a'' 1]) = []"
    by (simp_all add: run_ts_def initial_def tracker_defs Let_def MAX_ACCURACY_def)
  have u: "state (run_ui [Load, PlayPauseClick True ''1'' ''a'' 1, Position 0 0 10]) \<noteq> Stopped"
    "routeCoordinates (run_ui [Load, PlayPauseClick True ''1'' ''a'' 1, Position 0 0 10]) = [(0, 0)]"
    by (simp_all add: run_ui_def initial_def handlePlayPause_def tracker_defs Let_def
          MAX_ACCURACY_def)
  have far: "3 \<le> haversineDistance (0, 0) (180, 0)"
    using pi_ge_two by (simp add: haversineDistance_half_turn)
  have near: "haversineDistance (0, 0) (0, 0) < 3"
    by (simp add: haversineDistance_same)
  show ?thesis
    using r u far near
      C4_position_filter [of 31 "run_ts [InitMap, Start True ''1'' ''a'' 1, Fix 0 0 10]" 0 0
        "[Load, PlayPauseClick True ''1'' ''a'' 1, Position 0 0 10]"]
      C4_position_filter [of 10 "run_ts [InitMap, Start True ''1'' ''a'' 1, Fix 0 0 10]" 0 0 "[]"]
      C4_position_filter [of 10 "run_ts [InitMap, Start True ''1'' ''a'' 1, Fix 0 0 10]" 180 0 "[]"]
      C4_position_filter [of 10 "run_ts [InitMap, Start True ''1'' ''a'' 1]" 0 0 "[]"]
    by simp
qed

text \<open>
  The session variables along every sequence of start, pause, finish and position
  events from the initial state: \<open>startTime\<close> and \<open>currentRunId\<close> are non-null exactly
  when the state is running or paused, and, in a sequence with no pause at clock reading
  0, \<open>pauseStart\<close> is non-null exactly when the state is paused.
\<close>

lemma session_invariant_nonzero_pause:
  "(Pause 0 \<notin> set evs \<longrightarrow>
      (pauseStart (run_ts evs) \<noteq> None \<longleftrightarrow> state (run_ts evs) = Paused)) \<and>
   (startTime (run_ts evs) \<noteq> None \<longleftrightarrow>
      state (run_ts evs) = Running \<or> state (run_ts evs) = Paused) \<and>
   (currentRunId (run_ts evs) \<noteq> None \<longleftrightarrow>
      state (run_ts evs) = Running \<or> state (run_ts evs) = Paused)"
proof (intro conjI impI)
  assume "Pause 0 \<notin> set evs"
  then have "fieldsInv (run_ts evs)" by (rule run_ts_fieldsInv)
  then show "pauseStart (run_ts evs) \<noteq> None \<longleftrightarrow> state (run_ts evs) = Paused"
    by (cases "state (run_ts evs)") auto
next
  show "startTime (run_ts evs) \<noteq> None \<longleftrightarrow>
          state (run_ts evs) = Running \<or> state (run_ts evs) = Paused"
    using run_ts_startInv [of evs] by (cases "state (run_ts evs)") auto
  show "currentRunId (run_ts evs) \<noteq> None \<longleftrightarrow>
          state (run_ts evs) = Running \<or> state (run_ts evs) = Paused"
    using run_ts_startInv [of evs] by (cases "state (run_ts evs)") auto
qed

text \<open>
  C5. In every reachable state \<open>pauseStart\<close> is to be non-null exactly when the state is
  paused. The code departs from this after a pause at clock reading 0: the branch of
  \<^verbatim>\<open>startTracking\<close> commented \<^verbatim>\<open>Resume from pause\<close>, which clears \<open>pauseStart\<close>, is
  guarded by \<^verbatim>\<open>state === 'paused' && pauseStart\<close>, a truthiness test that takes the
  reading 0 for null. After a start and a pause at reading 0 and a start at reading 1
  the state is running and \<open>pauseStart\<close> is still 0, which is not null.
\<close>

theorem C5_session_invariant_zero_pause:
  "state (run_ts [Start True ''0'' ''a'' 0, Pause 0, Start True ''1'' ''b'' 1]) = Running \<and>
   pauseStart (run_ts [Start True ''0'' ''a'' 0, Pause 0, Start True ''1'' ''b'' 1]) = Some 0 \<and>
   \<not> (pauseStart (run_ts [Start True ''0'' ''a'' 0, Pause 0, Start True ''1'' ''b'' 1]) \<noteq> None
        \<longleftrightarrow> state (run_ts [Start True ''0'' ''a'' 0, Pause 0, Start True ''1'' ''b'' 1]) = Paused)"
  by (simp add: run_ts_def initial_def tracker_defs Let_def)

text \<open>
  C8, as the code has it. Run on the same sequence of operations, the TypeScript and the
  JavaScript variant agree on the lifecycle state, the timing variables and
  \<^verbatim>\<open>getElapsedTime\<close>, the run id, the subscriptions, the state-change notifications and
  the saved Run records; they agree on the route and on \<^verbatim>\<open>getCurrentDistance\<close> whenever
  the state is running or paused. When the operations come through the handlers of the
  user interface, they agree on \<^verbatim>\<open>getLastPosition\<close> and on the distance notifications
  as well. What differs is the route while stopped: the JavaScript \<^verbatim>\<open>finishRun\<close> clears
  it, the TypeScript one keeps it until the next fresh start.
\<close>

theorem C8_variants_agree:
  "state (run_ts evs) = state (run_js evs) \<and>
   startTime (run_ts evs) = startTime (run_js evs) \<and>
   pausedTime (run_ts evs) = pausedTime (run_js evs) \<and>
   pauseStart (run_ts evs) = pauseStart (run_js evs) \<and>
   currentRunId (run_ts evs) = currentRunId (run_js evs) \<and>
   watchId (run_ts evs) = watchId (run_js evs) \<and>
   activeWatches (run_ts evs) = activeWatches (run_js evs) \<and>
   savedRuns (run_ts evs) = savedRuns (run_js evs) \<and>
   storedRuns (run_ts evs) = storedRuns (run_js evs) \<and>
   stateChanges (run_ts evs) = stateChanges (run_js evs) \<and>
   getState (run_ts evs) = getState (run_js evs) \<and>
   getElapsedTime (run_ts evs) now = getElapsedTime (run_js evs) now \<and>
   (state (run_ts evs) \<noteq> Stopped \<longrightarrow>
      getRouteCoordinates (run_ts evs) = getRouteCoordinates (run_js evs) \<and>
      getCurrentDistance (run_ts evs) = getCurrentDistance_js (run_js evs)) \<and>
   state (run_ui uevs) = state (run_ui_js uevs) \<and>
   savedRuns (run_ui uevs) = savedRuns (run_ui_js uevs) \<and>
   getElapsedTime (run_ui uevs) now = getElapsedTime (run_ui_js uevs) now \<and>
   getLastPosition (run_ui uevs) = getLastPosition (run_ui_js uevs) \<and>
   distanceUpdates (run_ui uevs) = distanceUpdates (run_ui_js uevs) \<and>
   (state (run_ui uevs) \<noteq> Stopped \<longrightarrow>
      getRouteCoordinates (run_ui uevs) = getRouteCoordinates (run_ui_js uevs) \<and>
      getCurrentDistance (run_ui uevs) = getCurrentDistance_js (run_ui_js uevs))"
  using run_agree [of evs] run_ui_agree [of uevs]
  by (simp add: getState_def getCurrentDistance_def getCurrentDistance_js_def
        calculateTotalDistance_js_def getRouteCoordinates_def getLastPosition_def
        getElapsedTime_agree [of "run_ts evs" "run_js evs" now]
        getElapsedTime_agree [of "run_ui uevs" "run_ui_js uevs" now])

theorem C8_variants_agree_witness:
  "state (run_ts [InitMap, Start True ''1'' ''a'' 1, Fix 0 0 10]) \<noteq> Stopped \<and>
   getRouteCoordinates (run_ts [InitMap, Start True ''1'' ''a'' 1, Fix 0 0 10]) = [(0, 0)] \<and>
   getRouteCoordinates (run_js [InitMap, Start True ''1'' ''a'' 1, Fix 0 0 10]) = [(0, 0)] \<and>
   state (run_ui [Load, PlayPauseClick True ''1'' ''a'' 1, Position 0 0 10]) \<noteq> Stopped \<and>
   getRouteCoordinates (run_ui [Load, PlayPauseClick True ''1'' ''a'' 1, Position 0 0 10]) = [(0, 0)] \<and>
   getRouteCoordinates (run_ui_js [Load, PlayPauseClick True ''1'' ''a'' 1, Position 0 0 10]) = [(0, 0)]"
proof -
  have t: "state (run_ts [InitMap, Start True ''1'' ''a'' 1, Fix 0 0 10]) \<noteq> Stopped"
    "getRouteCoordinates (run_ts [InitMap, Start True ''1'' ''a'' 1, Fix 0 0 10]) = [(0, 0)]"
    by (simp_all add: run_ts_def initial_def tracker_defs Let_def MAX_ACCURACY_def)
  have u: "state (run_ui [Load, PlayPauseClick True ''1'' ''a'' 1, Position 0 0 10]) \<noteq> Stopped"
    "getRouteCoordinates (run_ui [Load, PlayPauseClick True ''1'' ''a'' 1, Position 0 0 10]) = [(0, 0)]"
    by (simp_all add: run_ui_def initial_def handlePlayPause_def tracker_defs Let_def
          MAX_ACCURACY_def)
  show ?thesis
    using t u
      C8_variants_agree [of "[InitMap, Start True ''1'' ''a'' 1, Fix 0 0 10]" 0
        "[Load, PlayPauseClick True ''1'' ''a'' 1, Position 0 0 10]"]
    by simp
qed

text \<open>
  C8 as stated fails after a finished run: both variants are stopped and have saved the
  same record, but \<^verbatim>\<open>getCurrentDistance\<close> still returns the run's distance in the
  TypeScript variant and 0 in the JavaScript variant.
\<close>

theorem C8_route_after_finish_counterexample:
  "state (run_ts [InitMap, Start True ''1'' ''a'' 1, Fix 0 0 10, Fix 180 0 10, Finish 2 2 Written Written]) = Stopped \<and>
   state (run_js [InitMap, Start True ''1'' ''a'' 1, Fix 0 0 10, Fix 180 0 10, Finish 2 2 Written Written]) = Stopped \<and>
   getCurrentDistance (run_ts [InitMap, Start True ''1'' ''a'' 1, Fix 0 0 10, Fix 180 0 10, Finish 2 2 Written Written]) =
     6371000 * pi \<and>
   getCurrentDistance_js (run_js [InitMap, Start True ''1'' ''a'' 1, Fix 0 0 10, Fix 180 0 10, Finish 2 2 Written Written]) = 0 \<and>
   getCurrentDistance (run_ts [InitMap, Start True ''1'' ''a'' 1, Fix 0 0 10, Fix 180 0 10, Finish 2 2 Written Written]) \<noteq>
     getCurrentDistance_js (run_js [InitMap, Start True ''1'' ''a'' 1, Fix 0 0 10, Fix 180 0 10, Finish 2 2 Written Written])"
  using pi_ge_two
  by (simp add: run_ts_def run_js_def initial_def tracker_defs getElapsedTime_def Let_def
        getCurrentDistance_def getCurrentDistance_js_def MAX_ACCURACY_def MIN_MOVEMENT_def
        haversineDistance_half_turn
        calculateTotalDistance_def totalDistance_loop.simps)

text \<open>
  C10. The TypeScript \<^verbatim>\<open>finishRun\<close> does not clear the route: after it,
  \<^verbatim>\<open>getRouteCoordinates\<close> and \<^verbatim>\<open>getCurrentDistance\<close> return what they returned before,
  and the state is stopped (when \<^verbatim>\<open>saveRun\<close> returned). While stopped, pausing and
  finishing change nothing, and \<^verbatim>\<open>startTracking\<close> (with geolocation available) empties
  the route. No operation of the tracker empties a non-empty route except that fresh
  start from stopped.
\<close>

theorem C10_finishRun_keeps_route:
  "getRouteCoordinates (fst (finishRun s now endNow first retry)) = getRouteCoordinates s \<and>
   getCurrentDistance (fst (finishRun s now endNow first retry)) = getCurrentDistance s \<and>
   (snd (finishRun s now endNow first retry) = None \<longrightarrow>
      state (fst (finishRun s now endNow first retry)) = Stopped) \<and>
   (state s = Stopped \<longrightarrow>
      pauseTracking s now = s \<and> fst (finishRun s now endNow first retry) = s \<and>
      getRouteCoordinates (startTracking s True stamp suffix now) = []) \<and>
   (getRouteCoordinates (step_ts s e) = [] \<and> getRouteCoordinates s \<noteq> [] \<longrightarrow>
      state s = Stopped \<and> (\<exists>stamp' suffix' now'. e = Start True stamp' suffix' now'))"
proof (intro conjI impI)
  show "getRouteCoordinates (fst (finishRun s now endNow first retry)) = getRouteCoordinates s"
    by (simp add: getRouteCoordinates_def finishRun_route)
  show "getCurrentDistance (fst (finishRun s now endNow first retry)) = getCurrentDistance s"
    by (simp add: getCurrentDistance_def getRouteCoordinates_def finishRun_route)
next
  assume ret: "snd (finishRun s now endNow first retry) = None"
  show "state (fst (finishRun s now endNow first retry)) = Stopped"
  proof (cases "state s = Stopped")
    case True
    then show ?thesis by (simp add: finishRun_def)
  next
    case False
    then show ?thesis using finishRun_reset [OF False ret] by simp
  qed
next
  assume st: "state s = Stopped"
  show "pauseTracking s now = s" using st by (simp add: pauseTracking_def)
  show "fst (finishRun s now endNow first retry) = s" using st by (simp add: finishRun_def)
  show "getRouteCoordinates (startTracking s True stamp suffix now) = []"
    using st by (simp add: tracker_defs Let_def)
next
  assume "getRouteCoordinates (step_ts s e) = [] \<and> getRouteCoordinates s \<noteq> []"
  then have c: "routeCoordinates (step_ts s e) = []" "routeCoordinates s \<noteq> []"
    by (simp_all add: getRouteCoordinates_def)
  show "state s = Stopped" using step_ts_clears [OF c] by simp
  show "\<exists>stamp' suffix' now'. e = Start True stamp' suffix' now'"
    using step_ts_clears [OF c] by simp
qed

theorem C10_finishRun_keeps_route_witness:
  "getRouteCoordinates (run_ts [InitMap, Start True ''1'' ''a'' 1, Fix 0 0 10]) = [(0, 0)] \<and>
   snd (finishRun (run_ts [InitMap, Start True ''1'' ''a'' 1, Fix 0 0 10]) 5 6 Written Written) = None \<and>
   getRouteCoordinates
     (run_ts [InitMap, Start True ''1'' ''a'' 1, Fix 0 0 10, Finish 5 6 Written Written]) = [(0, 0)] \<and>
   state (run_ts [InitMap, Start True ''1'' ''a'' 1, Fix 0 0 10, Finish 5 6 Written Written]) = Stopped \<and>
   pauseTracking (run_ts [InitMap, Start True ''1'' ''a'' 1, Fix 0 0 10, Finish 5 6 Written Written]) 7 =
     run_ts [InitMap, Start True ''1'' ''a'' 1, Fix 0 0 10, Finish 5 6 Written Written] \<and>
   getRouteCoordinates
     (step_ts (run_ts [InitMap, Start True ''1'' ''a'' 1, Fix 0 0 10, Finish 5 6 Written Written])
        (Start True ''2'' ''b'' 7)) = []"
proof -
  have a: "getRouteCoordinates (run_ts [InitMap, Start True ''1'' ''a'' 1, Fix 0 0 10]) = [(0, 0)]"
    by (simp add: run_ts_def initial_def tracker_defs Let_def MAX_ACCURACY_def)
  have b: "run_ts [InitMap, Start True ''1'' ''a'' 1, Fix 0 0 10, Finish 5 6 Written Written] =
           fst (finishRun (run_ts [InitMap, Start True ''1'' ''a'' 1, Fix 0 0 10]) 5 6 Written Written)"
    by (simp add: run_ts_def)
  have r: "snd (finishRun (run_ts [InitMap, Start True ''1'' ''a'' 1, Fix 0 0 10]) 5 6 Written Written) =
           None"
    by (simp add: run_ts_def initial_def tracker_defs getElapsedTime_def Let_def MAX_ACCURACY_def)
  have c: "state (fst (finishRun (run_ts [InitMap, Start True ''1'' ''a'' 1, Fix 0 0 10]) 5 6
             Written Written)) = Stopped"
    and d: "getRouteCoordinates (fst (finishRun (run_ts [InitMap, Start True ''1'' ''a'' 1, Fix 0 0 10])
             5 6 Written Written)) = [(0, 0)]"
    using a r C10_finishRun_keeps_route
      [of "run_ts [InitMap, Start True ''1'' ''a'' 1, Fix 0 0 10]" 5 6 Written Written
        "''2''" "''b''" InitMap]
    by simp_all
  show ?thesis
    unfolding b
    using a r c d C10_finishRun_keeps_route
      [of "fst (finishRun (run_ts [InitMap, Start True ''1'' ''a'' 1, Fix 0 0 10]) 5 6 Written Written)"
        7 7 Written Written "''2''" "''b''" "Start True ''2'' ''b'' 7"]
    by simp
qed

end
